theory Spec2Isabelle
  imports Main "HOL-Library.AList"
begin

section \<open>Python values, dictionaries and strings\<close>

text \<open>
  The values that travel through the command line interface: argparse results, the
  keyword arguments of \<open>FractalConfig\<close>, the dictionaries \<open>config.dict()\<close> returns and
  the documents \<open>yaml\<close> loads. A dictionary is an association list in insertion order;
  a lookup takes the first entry of a key, an assignment replaces it in place or appends.
\<close>

datatype pyval = PNone | PBool bool | PInt int | PStr string | PDict "(string \<times> pyval) list"

type_synonym pydict = "(string \<times> pyval) list"

datatype exn =
    NameError | KeyError | TypeError | AttributeError | ValidationError
  | FileNotFoundError | FileExistsError | IsADirectoryError | NotADirectoryError
  | DatastoreError | OSError | Exception | SystemExit int

text \<open>Truth value of a Python object, as \<open>not overwrite\<close> tests it.\<close>

fun truthy :: "pyval \<Rightarrow> bool" where
  "truthy PNone = False"
| "truthy (PBool b) = b"
| "truthy (PInt i) = (i \<noteq> 0)"
| "truthy (PStr s) = (s \<noteq> [])"
| "truthy (PDict d) = (d \<noteq> [])"

text \<open>\<open>d.get(k, default)\<close>.\<close>

definition dict_get :: "pydict \<Rightarrow> string \<Rightarrow> pyval \<Rightarrow> pyval" where
  "dict_get d k dflt = (case map_of d k of None \<Rightarrow> dflt | Some v \<Rightarrow> v)"

text \<open>\<open>d.pop(k)\<close>: the value and the dictionary without the key, KeyError when absent.\<close>

definition dict_pop :: "pydict \<Rightarrow> string \<Rightarrow> exn + (pyval \<times> pydict)" where
  "dict_pop d k = (case map_of d k of None \<Rightarrow> Inl KeyError | Some v \<Rightarrow> Inr (v, AList.delete k d))"

text \<open>\<open>{**a, **b}\<close>: the entries of \<open>a\<close>, then each entry of \<open>b\<close> assigned in order.\<close>

definition dict_unpack2 :: "pydict \<Rightarrow> pydict \<Rightarrow> pydict" where
  "dict_unpack2 a b = fold (\<lambda>kv d. AList.update (fst kv) (snd kv) d) b a"

text \<open>\<open>s.startswith(p)\<close>, \<open>sub in s\<close> and \<open>s.replace(old, new)\<close> on strings.\<close>

fun startswith :: "string \<Rightarrow> string \<Rightarrow> bool" where
  "startswith s p = (take (length p) s = p)"

fun str_in :: "string \<Rightarrow> string \<Rightarrow> bool" where
  "str_in sub [] = (sub = [])"
| "str_in sub (c # cs) = (startswith (c # cs) sub \<or> str_in sub cs)"

fun str_replace :: "string \<Rightarrow> string \<Rightarrow> string \<Rightarrow> string" where
  "str_replace old new [] = (if old = [] then new else [])"
| "str_replace old new (c # cs) =
     (if old = [] then new @ c # str_replace old new cs
      else if startswith (c # cs) old then new @ str_replace old new (drop (length old) (c # cs))
      else c # str_replace old new cs)"

section \<open>The world the commands act on\<close>

text \<open>
  A file holds either nothing (the state \<open>open(path, 'w')\<close> leaves before anything is
  written) or the YAML document of a value; \<open>yaml.dump\<close> and \<open>yaml.load\<close> are the two
  directions of \<open>Doc\<close>. Paths are strings with \<open>/\<close> as separator.
\<close>

datatype content = Empty | Doc pyval

datatype node = Dir | File content

datatype printed = Line string | Repr pyval | Dump pyval

text \<open>
  Modelled from the spec: \<open>FractalConfig\<close>, which lives in \<open>qcfractal/config.py\<close> and is
  not among the sources. A validated settings record with a base directory, a group of
  datastore settings and a group of server settings, each field with a declared default,
  owning paths derived from the base directory. \<open>given\<close> keeps the fields that were
  passed explicitly, which \<open>dict(skip_defaults=True)\<close> returns.
\<close>

record FractalConfig =
  base_folder :: string
  database :: pydict
  fractal :: pydict
  given :: pydict

record schema =
  database_fields :: pydict
  fractal_fields :: pydict
  default_base_folder :: string
  config_file_name :: string
  database_dir_name :: string
  accepts :: "pydict \<Rightarrow> bool"

datatype event =
    Print printed
  | PrintHelp
  | Mkdir string
  | ShutdownPostgres FractalConfig
  | Rmtree string
  | InitializePostgres FractalConfig
  | ReadText string
  | OpenW string
  | WriteData string content

text \<open>
  \<open>stdin\<close> are the lines the operator would type, \<open>trace\<close> the effects in the order
  they happen. \<open>shutdown_fails\<close> and \<open>initialize_fails\<close> say whether the two functions
  of \<open>postgres_manipulation\<close> (not part of the sources at hand) raise.
\<close>

record world =
  fs :: "(string \<times> node) list"
  stdin :: "string list"
  trace :: "event list"
  shutdown_fails :: bool
  initialize_fails :: bool

type_synonym 'a io = "world \<Rightarrow> (exn + 'a) \<times> world"

definition done_io :: "'a \<Rightarrow> 'a io" where
  "done_io x w = (Inr x, w)"

definition raise :: "exn \<Rightarrow> 'a io" where
  "raise e w = (Inl e, w)"

definition bind_io :: "'a io \<Rightarrow> ('a \<Rightarrow> 'b io) \<Rightarrow> 'b io" where
  "bind_io m f w = (case m w of (Inl e, w') \<Rightarrow> (Inl e, w') | (Inr x, w') \<Rightarrow> f x w')"

definition then_io :: "unit io \<Rightarrow> 'b io \<Rightarrow> 'b io" where
  "then_io m k = bind_io m (\<lambda>_. k)"

definition lift_io :: "exn + 'a \<Rightarrow> 'a io" where
  "lift_io r w = (r, w)"

definition emit :: "event \<Rightarrow> unit io" where
  "emit e w = (Inr (), w\<lparr>trace := trace w @ [e]\<rparr>)"

definition print :: "string \<Rightarrow> unit io" where
  "print s = emit (Print (Line s))"

definition sys_exit :: "int \<Rightarrow> 'a io" where
  "sys_exit n = raise (SystemExit n)"

subsection \<open>pathlib and shutil\<close>

definition path_exists :: "world \<Rightarrow> string \<Rightarrow> bool" where
  "path_exists w p = (map_of (fs w) p \<noteq> None)"

definition is_dir :: "world \<Rightarrow> string \<Rightarrow> bool" where
  "is_dir w p = (map_of (fs w) p = Some Dir)"

text \<open>The parent of a path; the empty string stands for the root or the working directory.\<close>

definition parent :: "string \<Rightarrow> string" where
  "parent p = rev (drop 1 (dropWhile (\<lambda>c. c \<noteq> CHR ''/'') (rev p)))"

definition parent_ok :: "world \<Rightarrow> string \<Rightarrow> bool" where
  "parent_ok w p = (parent p = [] \<or> is_dir w (parent p))"

text \<open>
  The error of a system call on a path that is not there: NotADirectoryError when the
  parent is a regular file, FileNotFoundError otherwise.
\<close>

definition no_entry :: "world \<Rightarrow> string \<Rightarrow> exn" where
  "no_entry w p =
     (case map_of (fs w) (parent p) of
        Some (File c) \<Rightarrow> NotADirectoryError
      | _ \<Rightarrow> FileNotFoundError)"

text \<open>\<open>Path.mkdir(exist_ok=True)\<close>, without \<open>parents\<close>.\<close>

definition mkdir :: "string \<Rightarrow> unit io" where
  "mkdir p w =
     (let w1 = w\<lparr>trace := trace w @ [Mkdir p]\<rparr> in
      case map_of (fs w) p of
        Some Dir \<Rightarrow> (Inr (), w1)
      | Some (File c) \<Rightarrow> (Inl FileExistsError, w1)
      | None \<Rightarrow>
          if parent_ok w p then (Inr (), w1\<lparr>fs := AList.update p Dir (fs w)\<rparr>)
          else (Inl (no_entry w p), w1))"

text \<open>
  \<open>shutil.rmtree(p, ignore_errors=True)\<close>: a directory goes with all below it; on a
  regular file or a path that is not there the call fails, the error is ignored and
  nothing is removed.
\<close>

definition below :: "string \<Rightarrow> string \<Rightarrow> bool" where
  "below p q = (q = p \<or> startswith q (p @ ''/''))"

definition rmtree :: "string \<Rightarrow> unit io" where
  "rmtree p w =
     (Inr (),
      w\<lparr>fs := (if is_dir w p then filter (\<lambda>e. \<not> below p (fst e)) (fs w) else fs w),
        trace := trace w @ [Rmtree p]\<rparr>)"

text \<open>\<open>Path.read_text()\<close>.\<close>

definition read_text :: "string \<Rightarrow> content io" where
  "read_text p w =
     (let w1 = w\<lparr>trace := trace w @ [ReadText p]\<rparr> in
      case map_of (fs w) p of
        Some (File c) \<Rightarrow> (Inr c, w1)
      | Some Dir \<Rightarrow> (Inl IsADirectoryError, w1)
      | None \<Rightarrow> (Inl (no_entry w p), w1))"

text \<open>
  \<open>Path.write_text(data)\<close> is \<open>with self.open(mode='w') as f: f.write(data)\<close>, two
  steps on the path itself: \<open>open_w\<close> is the \<open>open\<close>, which creates the file or cuts it
  to length zero, \<open>file_write\<close> puts the data in. \<open>write_text\<close> is the one followed by
  the other.
\<close>

definition open_w :: "string \<Rightarrow> unit io" where
  "open_w p w =
     (let w1 = w\<lparr>trace := trace w @ [OpenW p]\<rparr> in
      if is_dir w p then (Inl IsADirectoryError, w1)
      else if \<not> parent_ok w p then (Inl (no_entry w p), w1)
      else (Inr (), w1\<lparr>fs := AList.update p (File Empty) (fs w)\<rparr>))"

definition file_write :: "string \<Rightarrow> content \<Rightarrow> unit io" where
  "file_write p data w =
     (Inr (), w\<lparr>fs := AList.update p (File data) (fs w), trace := trace w @ [WriteData p data]\<rparr>)"

definition write_text :: "string \<Rightarrow> content \<Rightarrow> unit io" where
  "write_text p data = then_io (open_w p) (file_write p data)"

definition yaml_dump :: "pyval \<Rightarrow> content" where
  "yaml_dump v = Doc v"

text \<open>\<open>yaml.load\<close> of an empty document is \<open>None\<close>.\<close>

fun yaml_load :: "content \<Rightarrow> pyval" where
  "yaml_load Empty = PNone"
| "yaml_load (Doc v) = v"

subsection \<open>postgres_manipulation\<close>

text \<open>
  Modelled from the spec: \<open>shutdown_postgres\<close> and \<open>initialize_postgres\<close> of
  \<open>qcfractal/postgres_manipulation.py\<close>, which is not among the sources. Each is a call
  on the datastore that succeeds or fails with a datastore error; the call is recorded in
  the trace either way.
\<close>

definition shutdown_postgres :: "FractalConfig \<Rightarrow> unit io" where
  "shutdown_postgres config w =
     (if shutdown_fails w then Inl DatastoreError else Inr (), w\<lparr>trace := trace w @ [ShutdownPostgres config]\<rparr>)"

definition initialize_postgres :: "FractalConfig \<Rightarrow> unit io" where
  "initialize_postgres config w =
     (if initialize_fails w then Inl DatastoreError else Inr (), w\<lparr>trace := trace w @ [InitializePostgres config]\<rparr>)"

subsection \<open>FractalConfig\<close>

text \<open>
  Modelled from the spec: the constructor, \<open>dict\<close> and the derived paths of
  \<open>FractalConfig\<close> (\<open>qcfractal/config.py\<close>, not among the sources). The declared fields
  and defaults, the two file names and the validation are those of the \<open>schema\<close>.
\<close>

text \<open>The fields of a settings group: each declared field, from the input or its default.\<close>

definition with_defaults :: "pydict \<Rightarrow> pydict \<Rightarrow> pydict" where
  "with_defaults flds d = map (\<lambda>f. (fst f, dict_get d (fst f) (snd f))) flds"

definition only_fields :: "pydict \<Rightarrow> pydict \<Rightarrow> pydict" where
  "only_fields flds d = filter (\<lambda>kv. fst kv \<in> fst ` set flds) d"

definition group_arg :: "pydict \<Rightarrow> string \<Rightarrow> exn + pydict option" where
  "group_arg kwargs g =
     (case map_of kwargs g of
        None \<Rightarrow> Inr None
      | Some (PDict d) \<Rightarrow> Inr (Some d)
      | Some _ \<Rightarrow> Inl ValidationError)"

definition base_arg :: "pydict \<Rightarrow> exn + string option" where
  "base_arg kwargs =
     (case map_of kwargs ''base_folder'' of
        None \<Rightarrow> Inr None
      | Some (PStr s) \<Rightarrow> Inr (Some s)
      | Some _ \<Rightarrow> Inl ValidationError)"

text \<open>\<open>FractalConfig(**kwargs)\<close>.\<close>

definition bind_exn :: "exn + 'a \<Rightarrow> ('a \<Rightarrow> exn + 'b) \<Rightarrow> exn + 'b" where
  "bind_exn r f = (case r of Inl e \<Rightarrow> Inl e | Inr x \<Rightarrow> f x)"

definition given_base :: "string option \<Rightarrow> pydict" where
  "given_base b = (case b of None \<Rightarrow> [] | Some s \<Rightarrow> [(''base_folder'', PStr s)])"

definition given_group :: "string \<Rightarrow> pydict \<Rightarrow> pydict option \<Rightarrow> pydict" where
  "given_group g flds a = (case a of None \<Rightarrow> [] | Some d \<Rightarrow> [(g, PDict (only_fields flds d))])"

definition FractalConfig_new :: "schema \<Rightarrow> pydict \<Rightarrow> exn + FractalConfig" where
  "FractalConfig_new sch kwargs =
     (if \<not> accepts sch kwargs then Inl ValidationError
      else
        bind_exn (base_arg kwargs) (\<lambda>b.
        bind_exn (group_arg kwargs ''database'') (\<lambda>db.
        bind_exn (group_arg kwargs ''fractal'') (\<lambda>fr.
          Inr \<lparr>base_folder = (case b of None \<Rightarrow> default_base_folder sch | Some s \<Rightarrow> s),
               database = with_defaults (database_fields sch) (case db of None \<Rightarrow> [] | Some d \<Rightarrow> d),
               fractal = with_defaults (fractal_fields sch) (case fr of None \<Rightarrow> [] | Some d \<Rightarrow> d),
               given =
                 given_base b @ given_group ''database'' (database_fields sch) db @
                 given_group ''fractal'' (fractal_fields sch) fr\<rparr>))))"

text \<open>\<open>config.dict()\<close> and \<open>config.dict(skip_defaults=True)\<close>.\<close>

definition FractalConfig_dict :: "FractalConfig \<Rightarrow> pydict" where
  "FractalConfig_dict c = [(''base_folder'', PStr (base_folder c)), (''database'', PDict (database c)), (''fractal'', PDict (fractal c))]"

definition FractalConfig_dict_skip_defaults :: "FractalConfig \<Rightarrow> pydict" where
  "FractalConfig_dict_skip_defaults c = given c"

definition base_path :: "FractalConfig \<Rightarrow> string" where
  "base_path c = base_folder c"

definition config_file_path :: "schema \<Rightarrow> FractalConfig \<Rightarrow> string" where
  "config_file_path sch c = base_folder c @ ''/'' @ config_file_name sch"

definition database_path :: "schema \<Rightarrow> FractalConfig \<Rightarrow> string" where
  "database_path sch c = base_folder c @ ''/'' @ database_dir_name sch"

section \<open>The command line interface: qcfractal\_server.py\<close>

subsection \<open>parse\_args, lines 51 to 69\<close>

text \<open>\<open>ret[g][k] = v\<close>.\<close>

definition setitem_in :: "pydict \<Rightarrow> string \<Rightarrow> string \<Rightarrow> pyval \<Rightarrow> exn + pydict" where
  "setitem_in ret g k v =
     (case map_of ret g of
        None \<Rightarrow> Inl KeyError
      | Some (PDict d) \<Rightarrow> Inr (AList.update g (PDict (AList.update k v d)) ret)
      | Some _ \<Rightarrow> Inl TypeError)"

text \<open>One round of the loop over \<open>args.items()\<close>; \<open>names\<close> are \<open>FractalServerSettings.field_names()\<close>.\<close>

definition move_arg :: "string list \<Rightarrow> pydict \<Rightarrow> string \<times> pyval \<Rightarrow> exn + pydict" where
  "move_arg names ret kv =
     (let key = fst kv; value = snd kv in
      if value = PNone then Inr ret
      else if str_in ''db'' key then setitem_in ret ''database'' (str_replace ''db_'' [] key) value
      else if key \<in> set names then setitem_in ret ''fractal'' key value
      else Inr (AList.update key value ret))"

fun move_args :: "string list \<Rightarrow> pydict \<Rightarrow> pydict \<Rightarrow> exn + pydict" where
  "move_args names ret [] = Inr ret"
| "move_args names ret (kv # rest) =
     (case move_arg names ret kv of Inl e \<Rightarrow> Inl e | Inr ret' \<Rightarrow> move_args names ret' rest)"

definition field_names :: "pydict \<Rightarrow> string list" where
  "field_names flds = map fst flds"

text \<open>
  \<open>parse_args\<close> from line 49 on; \<open>args\<close> is \<open>vars(parser.parse_args())\<close>, the
  result of argparse.
\<close>

definition parse_args :: "schema \<Rightarrow> pydict \<Rightarrow> pydict io" where
  "parse_args sch args =
     bind_io (lift_io (move_args (field_names (fractal_fields sch))
                 [(''database'', PDict []), (''fractal'', PDict [])] args)) (\<lambda>ret.
       case map_of args ''cmd'' of
         None \<Rightarrow> raise KeyError
       | Some PNone \<Rightarrow> then_io (emit PrintHelp) (sys_exit 1)
       | Some _ \<Rightarrow> done_io ret)"

subsection \<open>server\_init\<close>

definition nl :: string where
  "nl = [CHR 0x0A]"

text \<open>
  Lines 84 to 104, run when the configuration file exists. Line 95, which would read the
  operator's answer, is a comment in the source; line 96 binds \<open>inp\<close> to the literal.
\<close>

definition existing_config :: "schema \<Rightarrow> pyval \<Rightarrow> FractalConfig \<Rightarrow> unit io" where
  "existing_config sch overwrite config =
     then_io (print []) (
       if \<not> truthy overwrite then
         then_io (print ''QCFractal configuration file already exists, to overwrite use '--overwrite' or use the `qcfractal-server config` command line to alter settings.'') (
         sys_exit 2)
       else
         then_io (print ''!WARNING! A QCFractal configuration is currently initalized'') (
         then_io (print (''!WARNING! Overwriting will delete all current Fractal data, this includes all data in '' @ database_path sch config @ ''.'')) (
         then_io (print ''!WARNING! Please use `qcfractal-server config` to alter configuration settings instead.'') (
         then_io (print []) (
         then_io (print ''!WARNING! If you are sure you wish to procede please type 'REMOVEALLDATA' below.'') (
         (let inp = ''REMOVEALLDATA'' in
          then_io (print []) (
            if inp = ''REMOVEALLDATA'' then
              then_io (print ''All data will be removed from the current QCFractal instance.'') (
              then_io (shutdown_postgres config) (
              rmtree (database_path sch config)))
            else
              then_io (print ''Input does not match 'REMOVEALLDATA', exiting.'') (
              sys_exit 1)))))))))"

text \<open>Line 125: \<open>config.config_file_path.write_text(yaml.dump(config.dict(), ...))\<close>.\<close>

definition write_settings :: "schema \<Rightarrow> FractalConfig \<Rightarrow> unit io" where
  "write_settings sch config =
     write_text (config_file_path sch config) (yaml_dump (PDict (FractalConfig_dict config)))"

text \<open>Lines 113 to 128: the echo of the settings, the datastore set-up and the write.\<close>

definition apply_config :: "schema \<Rightarrow> FractalConfig \<Rightarrow> unit io" where
  "apply_config sch config =
     bind_io (lift_io (setitem_in (FractalConfig_dict config) ''database'' ''password'' (PStr ''**************''))) (\<lambda>print_config.
     then_io (print (nl @ ''>>> Settings found:'' @ nl)) (
     then_io (emit (Print (Dump (PDict print_config)))) (
     then_io (print (nl @ ''>>> Setting up PostgreSQL...'' @ nl)) (
     then_io (mkdir (database_path sch config)) (
     then_io (initialize_postgres config) (
     then_io (print (nl @ ''>>> Writing settings...'')) (
     then_io (write_settings sch config) (
     then_io (print (nl @ ''>>> Finishing up...'')) (
     print (nl @ ''>>> Success! Please run `qcfractal-server start` to boot a FractalServer!''))))))))))"

text \<open>
  \<open>server_init(config)\<close>. Line 80 reads the name \<open>args\<close>, which is neither a parameter
  nor a local of the function: Python looks it up among the module's globals when the
  line runs and raises NameError when it is not bound. \<open>module_args\<close> is that global:
  \<open>None\<close> when unbound, as in the module as it stands (\<open>args\<close> is only ever a local
  of \<open>main\<close> there).
\<close>

definition server_init :: "schema \<Rightarrow> pydict option \<Rightarrow> FractalConfig \<Rightarrow> unit io" where
  "server_init sch module_args config =
     then_io (print ''Initializing QCFractal configuration.'') (
     then_io (mkdir (base_path config)) (
     bind_io (case module_args of
                None \<Rightarrow> raise NameError
              | Some args \<Rightarrow> done_io (dict_get args ''overwrite'' (PBool False))) (\<lambda>overwrite.
     then_io (\<lambda>w. if path_exists w (config_file_path sch config)
                  then existing_config sch overwrite config w
                  else done_io () w) (
     apply_config sch config))))"

subsection \<open>server\_config\<close>

definition server_config :: "FractalConfig \<Rightarrow> unit io" where
  "server_config config =
     then_io (print (''Displaying QCFractal configuration:'' @ nl)) (
     emit (Print (Dump (PDict (FractalConfig_dict config)))))"

subsection \<open>main\<close>

text \<open>Line 158: \<open>file_dict["fractal"] = {**config_dict.pop("fractal"), **file_dict.pop("fractal")}\<close>.\<close>

definition merge_fractal :: "pydict \<Rightarrow> pydict \<Rightarrow> exn + pydict" where
  "merge_fractal file_dict config_dict =
     bind_exn (dict_pop config_dict ''fractal'') (\<lambda>cp.
       case fst cp of
         PDict c \<Rightarrow>
           bind_exn (dict_pop file_dict ''fractal'') (\<lambda>fp.
             case fst fp of
               PDict f \<Rightarrow> Inr (AList.update ''fractal'' (PDict (dict_unpack2 c f)) (snd fp))
             | _ \<Rightarrow> Inl TypeError)
       | _ \<Rightarrow> Inl TypeError)"

text \<open>Lines 147 to 160, run for every command but \<open>init\<close>.\<close>

definition merge_files :: "schema \<Rightarrow> FractalConfig \<Rightarrow> FractalConfig io" where
  "merge_files sch config w =
     (if \<not> path_exists w (base_path config) then
        then_io (print (''Could not find configuration file path: '' @ base_path config)) (sys_exit 1) w
      else if \<not> path_exists w (config_file_path sch config) then
        then_io (print (''Could not find configuration file: '' @ config_file_path sch config)) (sys_exit 1) w
      else
        bind_io (read_text (config_file_path sch config)) (\<lambda>text.
        bind_io (lift_io (case yaml_load text of
                            PDict d \<Rightarrow> FractalConfig_new sch d
                          | _ \<Rightarrow> Inl TypeError)) (\<lambda>file_config.
        bind_io (lift_io (merge_fractal (FractalConfig_dict file_config) (FractalConfig_dict_skip_defaults config))) (\<lambda>file_dict.
        lift_io (FractalConfig_new sch file_dict)))) w)"

text \<open>
  \<open>main(args)\<close>. \<open>cli\<close> is what argparse would return, used when \<open>args\<close> is \<open>None\<close>.
  The statement at line 166 is reached by every command other than \<open>init\<close> and
  \<open>config\<close>; nothing after it (lines 168 to 227) can run.
\<close>

definition main :: "schema \<Rightarrow> pydict option \<Rightarrow> pydict \<Rightarrow> pydict option \<Rightarrow> unit io" where
  "main sch module_args cli args =
     bind_io (case args of
                None \<Rightarrow> bind_io (parse_args sch cli) (\<lambda>a. then_io (emit (Print (Repr (PDict a)))) (done_io a))
              | Some a \<Rightarrow> done_io a) (\<lambda>args1.
     bind_io (lift_io (dict_pop args1 ''cmd'')) (\<lambda>popped.
     bind_io (lift_io (FractalConfig_new sch (snd popped))) (\<lambda>config.
     bind_io (if fst popped \<noteq> PStr ''init'' then merge_files sch config else done_io config) (\<lambda>config1.
       if fst popped = PStr ''init'' then server_init sch module_args config1
       else if fst popped = PStr ''config'' then server_config config1
       else raise Exception))))"

section \<open>The server object: dqm\_server/server.py\<close>

text \<open>
  The constructor of \<open>DQMServer\<close>, lines 12 to 69. Python puts no type on
  \<open>logfile_name\<close>: it may be \<open>None\<close>, a string, a number, or an object with attributes
  of its own (an \<open>argparse.Namespace\<close>, say). \<open>handler_fails\<close>, \<open>db_socket_fails\<close> and
  \<open>listen_fails\<close> say whether \<open>logging.FileHandler\<close> (which opens the file),
  \<open>db_sockets.db_socket_factory\<close> and \<open>tornado\<close>'s \<open>listen\<close> raise.
\<close>

datatype pyobj = ONone | OStr string | OInt int | OObj "(string \<times> pyobj) list"

record DQMServer_args =
  port :: int
  db_ip :: string
  db_port :: int
  db_username :: "string option"
  db_password :: "string option"
  db_type :: string
  db_project_name :: string
  logfile_name :: pyobj

datatype srv_event =
    SetLevel
  | NewFileHandler string
  | SetFormatter
  | AddHandler
  | LogInfoObj string pyobj
  | LogInfoInt string int
  | DbSocketFactory string int string "string option" "string option" string
  | CurrentLoop
  | NewApplication
  | Listen int

record srv_world =
  srv_trace :: "srv_event list"
  handler_fails :: bool
  db_socket_fails :: bool
  listen_fails :: bool

record DQMServer =
  self_port :: int
  file_handlers :: nat

type_synonym 'a srv = "srv_world \<Rightarrow> (exn + 'a) \<times> srv_world"

definition srv_emit :: "srv_event \<Rightarrow> srv_world \<Rightarrow> srv_world" where
  "srv_emit e w = w\<lparr>srv_trace := srv_trace w @ [e]\<rparr>"

text \<open>
  \<open>logfile_name.logfile\<close>: the attribute of an object that has one; \<open>None\<close>, strings and
  numbers have no attribute of that name, and the lookup raises AttributeError.
\<close>

definition getattr_logfile :: "pyobj \<Rightarrow> exn + pyobj" where
  "getattr_logfile x =
     (case x of
        OObj attrs \<Rightarrow> (case map_of attrs ''logfile'' of None \<Rightarrow> Inl AttributeError | Some v \<Rightarrow> Inr v)
      | _ \<Rightarrow> Inl AttributeError)"

text \<open>
  \<open>logging.FileHandler(filename)\<close>: the file name has to be a string, and the file is
  opened at once.
\<close>

definition new_file_handler :: "pyobj \<Rightarrow> string srv" where
  "new_file_handler x w =
     (case x of
        OStr f \<Rightarrow> if handler_fails w then (Inl OSError, w) else (Inr f, srv_emit (NewFileHandler f) w)
      | _ \<Rightarrow> (Inl TypeError, w))"

text \<open>Lines 35 to 41; the result is the number of handlers attached.\<close>

definition attach_handler :: "pyobj \<Rightarrow> nat srv" where
  "attach_handler name w =
     (if name = ONone then (Inr 0, w)
      else
        case getattr_logfile name of
          Inl e \<Rightarrow> (Inl e, w)
        | Inr v \<Rightarrow>
            (case new_file_handler v w of
               (Inl e, w1) \<Rightarrow> (Inl e, w1)
             | (Inr f, w1) \<Rightarrow> (Inr 1, srv_emit AddHandler (srv_emit SetFormatter (srv_emit SetLevel w1)))))"

text \<open>
  Lines 43 to 69. The two messages are kept as the format string and the value put into
  it.
\<close>

definition connect_and_listen :: "DQMServer_args \<Rightarrow> nat \<Rightarrow> DQMServer srv" where
  "connect_and_listen a handlers w =
     (let w1 = srv_emit (LogInfoObj (''Logfile set to %s'' @ [CHR 0x0A]) (logfile_name a)) w;
          w2 = srv_emit (DbSocketFactory (db_ip a) (db_port a) (db_project_name a)
                           (db_username a) (db_password a) (db_type a)) w1
      in if db_socket_fails w then (Inl Exception, w2)
         else
           let w3 = srv_emit (Listen (port a)) (srv_emit NewApplication (srv_emit CurrentLoop w2))
           in if listen_fails w then (Inl OSError, w3)
              else (Inr \<lparr>self_port = port a, file_handlers = handlers\<rparr>,
                    srv_emit (LogInfoInt (''DQM Server successfully initialized at https://localhost:%d.'' @ [CHR 0x0A])
                                (port a)) w3))"

definition DQMServer_init :: "DQMServer_args \<Rightarrow> DQMServer srv" where
  "DQMServer_init a w =
     (case attach_handler (logfile_name a) (srv_emit SetLevel w) of
        (Inl e, w1) \<Rightarrow> (Inl e, w1)
      | (Inr handlers, w1) \<Rightarrow> connect_and_listen a handlers w1)"

definition is_connection :: "srv_event \<Rightarrow> bool" where
  "is_connection e = (case e of DbSocketFactory a b c d f g \<Rightarrow> True | Listen p \<Rightarrow> True | _ \<Rightarrow> False)"

section \<open>A concrete installation\<close>

text \<open>
  A small schema, a persisted record and a file system holding it, on which the commands
  are run below: the base directory \<open>qcf\<close> with its configuration file and a datastore
  directory with one file in it. The operator is about to type \<open>NO\<close>.
\<close>

definition example_schema :: schema where
  "example_schema =
     \<lparr>database_fields = [(''port'', PInt 5432), (''host'', PStr ''localhost''), (''password'', PNone)],
      fractal_fields = [(''port'', PInt 7777), (''logfile'', PNone)],
      default_base_folder = ''qcf'',
      config_file_name = ''qcfractal_config.yaml'',
      database_dir_name = ''postgres'',
      accepts = (\<lambda>kwargs. True)\<rparr>"

definition example_record :: pydict where
  "example_record =
     [(''base_folder'', PStr ''qcf''),
      (''database'', PDict [(''port'', PInt 5432), (''host'', PStr ''dbhost''), (''password'', PStr ''s3cret'')]),
      (''fractal'', PDict [(''port'', PInt 7777), (''logfile'', PNone)])]"

definition example_world :: world where
  "example_world =
     \<lparr>fs = [(''qcf'', Dir),
            (''qcf/qcfractal_config.yaml'', File (Doc (PDict example_record))),
            (''qcf/postgres'', Dir),
            (''qcf/postgres/base'', File Empty)],
      stdin = [''NO''],
      trace = [],
      shutdown_fails = False,
      initialize_fails = False\<rparr>"

text \<open>The command \<open>config\<close> or \<open>start\<close> asking for port 8888 and another datastore host.\<close>

definition example_args :: "string \<Rightarrow> pydict" where
  "example_args cmd =
     [(''cmd'', PStr cmd),
      (''database'', PDict [(''host'', PStr ''elsewhere'')]),
      (''fractal'', PDict [(''port'', PInt 8888)])]"

text \<open>What argparse returns for \<open>init\<close> with and without \<open>--overwrite\<close>, no other option set.\<close>

definition example_cli_init :: "bool \<Rightarrow> pydict" where
  "example_cli_init overwrite =
     [(''cmd'', PStr ''init''), (''db_port'', PNone), (''db_host'', PNone), (''db_password'', PNone),
      (''port'', PNone), (''logfile'', PNone), (''overwrite'', PBool overwrite), (''base_folder'', PNone)]"

text \<open>What argparse returns for an \<open>init\<close> that sets a few options.\<close>

definition example_cli_options :: pydict where
  "example_cli_options =
     [(''cmd'', PStr ''init''), (''db_port'', PInt 5433), (''db_host'', PNone), (''mydb'', PStr ''x''),
      (''port'', PInt 8888), (''logfile'', PNone), (''overwrite'', PBool False)]"

text \<open>
  The configuration an \<open>init\<close> builds for a new datastore host and password, and what
  its echo is expected to print.
\<close>

definition example_config :: FractalConfig where
  "example_config =
     \<lparr>base_folder = ''qcf'',
      database = [(''port'', PInt 5432), (''host'', PStr ''newhost''), (''password'', PStr ''n3w'')],
      fractal = [(''port'', PInt 7777), (''logfile'', PNone)],
      given = [(''database'', PDict [(''host'', PStr ''newhost''), (''password'', PStr ''n3w'')]),
               (''fractal'', PDict [])]\<rparr>"

definition example_echo :: pydict where
  "example_echo =
     [(''base_folder'', PStr ''qcf''),
      (''database'', PDict [(''port'', PInt 5432), (''host'', PStr ''newhost''), (''password'', PStr ''**************'')]),
      (''fractal'', PDict [(''port'', PInt 7777), (''logfile'', PNone)])]"

text \<open>The command \<open>config\<close> with no option but the default base directory.\<close>

definition example_show :: pydict where
  "example_show = [(''cmd'', PStr ''config''), (''database'', PDict []), (''fractal'', PDict [])]"

text \<open>The password a printed line shows, when the line is the dump of a configuration.\<close>

definition printed_password :: "event \<Rightarrow> pyval option" where
  "printed_password e =
     (case e of
        Print (Dump (PDict d)) \<Rightarrow>
          (case map_of d ''database'' of Some (PDict db) \<Rightarrow> map_of db ''password'' | _ \<Rightarrow> None)
      | _ \<Rightarrow> None)"

text \<open>
  A \<open>start\<close> on a base directory that is not there. What \<open>parse_args\<close> makes of
  \<open>init --overwrite\<close>, and the configuration \<open>main\<close> builds from it. The arguments
  of \<open>DQMServer\<close> with the defaults of its signature and a given \<open>logfile_name\<close>, and
  an object whose attribute \<open>logfile\<close> is a file name.
\<close>

definition example_elsewhere :: pydict where
  "example_elsewhere =
     [(''cmd'', PStr ''start''), (''base_folder'', PStr ''nowhere''),
      (''database'', PDict []), (''fractal'', PDict [])]"

definition example_parsed :: pydict where
  "example_parsed =
     [(''database'', PDict []), (''fractal'', PDict []), (''cmd'', PStr ''init''),
      (''overwrite'', PBool True)]"

definition example_init_config :: FractalConfig where
  "example_init_config =
     \<lparr>base_folder = ''qcf'',
      database = [(''port'', PInt 5432), (''host'', PStr ''localhost''), (''password'', PNone)],
      fractal = [(''port'', PInt 7777), (''logfile'', PNone)],
      given = [(''database'', PDict []), (''fractal'', PDict [])]\<rparr>"

definition example_server_args :: "pyobj \<Rightarrow> DQMServer_args" where
  "example_server_args name =
     \<lparr>port = 8888, db_ip = ''127.0.0.1'', db_port = 27017, db_username = None, db_password = None,
      db_type = ''mongo'', db_project_name = ''molssidb'', logfile_name = name\<rparr>"

definition example_namespace :: pyobj where
  "example_namespace = OObj [(''port'', OInt 8888), (''logfile'', OStr ''server.log'')]"

definition example_srv_world :: srv_world where
  "example_srv_world =
     \<lparr>srv_trace = [], handler_fails = False, db_socket_fails = False, listen_fails = False\<rparr>"

section \<open>What the loop of parse\_args is expected to build\<close>

text \<open>
  The entries bound for the database group: those with a value other than \<open>None\<close> whose
  key contains \<open>db\<close>, under the key with \<open>db_\<close> taken out; and those bound for the group
  of server settings. \<open>no_none\<close> says that no entry of a dictionary holds \<open>None\<close>.
\<close>

definition routed_db :: "pydict \<Rightarrow> pydict" where
  "routed_db args =
     map (\<lambda>kv. (str_replace ''db_'' [] (fst kv), snd kv))
       (filter (\<lambda>kv. snd kv \<noteq> PNone \<and> str_in ''db'' (fst kv)) args)"

definition routed_fractal :: "string list \<Rightarrow> pydict \<Rightarrow> pydict" where
  "routed_fractal names args =
     filter (\<lambda>kv. snd kv \<noteq> PNone \<and> \<not> str_in ''db'' (fst kv) \<and> fst kv \<in> set names) args"

definition no_none :: "pydict \<Rightarrow> bool" where
  "no_none d = (PNone \<notin> snd ` set d)"

section \<open>Notions the statements below use\<close>

text \<open>
  \<open>arguments\<close> is the dictionary \<open>main\<close> works on: the one it is handed, or the one
  \<open>parse_args\<close> builds; \<open>echo_of\<close> is what line 140 prints of it. \<open>banner\<close> is the first
  line \<open>server_init\<close> prints, \<open>missing_report\<close> the line printed when the base directory
  or the configuration file is not there. \<open>exit_status\<close> is the status the process ends
  with: that of \<open>sys.exit\<close>, and 1 for any other exception that nothing catches.
  An event is \<open>harmless\<close> when it prints, reads or makes a directory: it is not a
  shutdown or a set-up of the datastore, not a removal and not a write. \<open>appends P m\<close>
  says that \<open>m\<close> only adds events to the trace, each satisfying \<open>P\<close>. \<open>has_logfile\<close>
  says that an object has an attribute \<open>logfile\<close>.
\<close>

definition arguments :: "schema \<Rightarrow> pydict \<Rightarrow> pydict option \<Rightarrow> pydict io" where
  "arguments sch cli args = (case args of None \<Rightarrow> parse_args sch cli | Some a \<Rightarrow> done_io a)"

definition echo_of :: "pydict option \<Rightarrow> pydict \<Rightarrow> event list" where
  "echo_of args a = (case args of None \<Rightarrow> [Print (Repr (PDict a))] | Some b \<Rightarrow> [])"

definition banner :: string where
  "banner = ''Initializing QCFractal configuration.''"

definition missing_report :: "schema \<Rightarrow> FractalConfig \<Rightarrow> world \<Rightarrow> string" where
  "missing_report sch config w =
     (if \<not> path_exists w (base_path config)
      then ''Could not find configuration file path: '' @ base_path config
      else ''Could not find configuration file: '' @ config_file_path sch config)"

definition exit_status :: "exn + unit \<Rightarrow> int" where
  "exit_status r = (case r of Inr u \<Rightarrow> 0 | Inl (SystemExit n) \<Rightarrow> n | Inl e \<Rightarrow> 1)"

definition harmless :: "event \<Rightarrow> bool" where
  "harmless e =
     (case e of Print x \<Rightarrow> True | PrintHelp \<Rightarrow> True | Mkdir p \<Rightarrow> True | ReadText p \<Rightarrow> True | _ \<Rightarrow> False)"

definition appends :: "(event \<Rightarrow> bool) \<Rightarrow> 'a io \<Rightarrow> bool" where
  "appends P m = (\<forall>w. \<exists>es. trace (snd (m w)) = trace w @ es \<and> list_all P es)"

definition has_logfile :: "pyobj \<Rightarrow> bool" where
  "has_logfile x = (case x of OObj attrs \<Rightarrow> map_of attrs ''logfile'' \<noteq> None | _ \<Rightarrow> False)"

section \<open>Evaluation\<close>

lemmas io_defs = done_io_def raise_def bind_io_def then_io_def lift_io_def emit_def print_def
  sys_exit_def bind_exn_def

lemmas fs_defs = path_exists_def is_dir_def parent_def parent_ok_def mkdir_def below_def rmtree_def
  read_text_def
  no_entry_def open_w_def file_write_def write_text_def yaml_dump_def shutdown_postgres_def
  initialize_postgres_def

lemmas cfg_defs = with_defaults_def only_fields_def group_arg_def base_arg_def given_base_def
  given_group_def FractalConfig_new_def FractalConfig_dict_def FractalConfig_dict_skip_defaults_def
  base_path_def config_file_path_def database_path_def dict_get_def dict_pop_def dict_unpack2_def

lemmas cli_defs = setitem_in_def move_arg_def field_names_def parse_args_def existing_config_def
  write_settings_def
  apply_config_def server_init_def server_config_def merge_fractal_def merge_files_def main_def

lemmas example_defs = example_schema_def example_record_def example_world_def example_args_def
  example_cli_init_def example_cli_options_def example_parsed_def example_init_config_def

section \<open>parse\_args: where the options go\<close>

lemma set_update_subset: "set (AList.update k v al) \<subseteq> insert (k, v) (set al)"
  by (induction al) (auto simp: AList.update.simps)

lemma no_none_update: "no_none d \<Longrightarrow> v \<noteq> PNone \<Longrightarrow> no_none (AList.update k v d)"
  using set_update_subset[of k v d] by (fastforce simp: no_none_def)

lemma move_arg_step:
  assumes "map_of ret ''database'' = Some (PDict db)"
    and "map_of ret ''fractal'' = Some (PDict fr)"
    and "k = ''database'' \<or> k = ''fractal'' \<Longrightarrow> k \<in> set names \<or> v = PNone"
  shows "\<exists>ret'. move_arg names ret (k, v) = Inr ret' \<and>
     map_of ret' ''database'' =
       Some (PDict (if v \<noteq> PNone \<and> str_in ''db'' k then AList.update (str_replace ''db_'' [] k) v db else db)) \<and>
     map_of ret' ''fractal'' =
       Some (PDict (if v \<noteq> PNone \<and> \<not> str_in ''db'' k \<and> k \<in> set names then AList.update k v fr else fr)) \<and>
     (no_none ret \<longrightarrow> no_none ret')"
  using assms by (auto simp: move_arg_def setitem_in_def update_conv' no_none_update)

lemma move_args_groups:
  assumes "map_of ret ''database'' = Some (PDict db)"
    and "map_of ret ''fractal'' = Some (PDict fr)"
    and "\<And>k v. (k, v) \<in> set args \<Longrightarrow> k = ''database'' \<or> k = ''fractal'' \<Longrightarrow> k \<in> set names \<or> v = PNone"
    and "no_none ret" and "no_none db" and "no_none fr"
  shows "\<exists>ret' db' fr'. move_args names ret args = Inr ret' \<and>
     map_of ret' ''database'' = Some (PDict db') \<and>
     map_of ret' ''fractal'' = Some (PDict fr') \<and>
     map_of db' = map_of db ++ map_of (rev (routed_db args)) \<and>
     map_of fr' = map_of fr ++ map_of (rev (routed_fractal names args)) \<and>
     no_none ret' \<and> no_none db' \<and> no_none fr'"
  using assms
proof (induction args arbitrary: ret db fr)
  case Nil
  then show ?case by (simp add: routed_db_def routed_fractal_def)
next
  case (Cons kv args)
  obtain k v where kv: "kv = (k, v)" by (cases kv)
  let ?db1 = "if v \<noteq> PNone \<and> str_in ''db'' k then AList.update (str_replace ''db_'' [] k) v db else db"
  let ?fr1 = "if v \<noteq> PNone \<and> \<not> str_in ''db'' k \<and> k \<in> set names then AList.update k v fr else fr"
  have side: "k = ''database'' \<or> k = ''fractal'' \<Longrightarrow> k \<in> set names \<or> v = PNone"
    using Cons.prems(3)[of k v] kv by simp
  from move_arg_step[OF Cons.prems(1,2) side] Cons.prems(4)
  obtain ret1 where r1: "move_arg names ret (k, v) = Inr ret1"
    and d1: "map_of ret1 ''database'' = Some (PDict ?db1)"
    and f1: "map_of ret1 ''fractal'' = Some (PDict ?fr1)"
    and n1: "no_none ret1"
    by blast
  have rest: "\<And>k v. (k, v) \<in> set args \<Longrightarrow> k = ''database'' \<or> k = ''fractal'' \<Longrightarrow> k \<in> set names \<or> v = PNone"
    using Cons.prems(3) by simp
  have nd: "no_none ?db1" using Cons.prems(5) by (simp add: no_none_update)
  have nf: "no_none ?fr1" using Cons.prems(6) by (simp add: no_none_update)
  from Cons.IH[OF d1 f1 rest n1 nd nf]
  obtain ret' db' fr' where fin: "move_args names ret1 args = Inr ret'"
    "map_of ret' ''database'' = Some (PDict db')" "map_of ret' ''fractal'' = Some (PDict fr')"
    "map_of db' = map_of ?db1 ++ map_of (rev (routed_db args))"
    "map_of fr' = map_of ?fr1 ++ map_of (rev (routed_fractal names args))"
    "no_none ret'" "no_none db'" "no_none fr'"
    by blast
  have "map_of db' = map_of db ++ map_of (rev (routed_db (kv # args)))"
    using fin(4) by (auto simp: kv routed_db_def update_conv' map_add_upd_left)
  moreover have "map_of fr' = map_of fr ++ map_of (rev (routed_fractal names (kv # args)))"
    using fin(5) by (auto simp: kv routed_fractal_def update_conv')
  ultimately show ?case using fin(1-3,6-8) r1 by (simp add: kv)
qed

lemma move_args_drops_none:
  "move_args names ret (filter (\<lambda>kv. snd kv \<noteq> PNone) args) = move_args names ret args"
proof (induction args arbitrary: ret)
  case Nil
  show ?case by simp
next
  case (Cons kv args)
  show ?case
  proof (cases "snd kv = PNone")
    case True
    then have "move_arg names ret kv = Inr ret" by (simp add: move_arg_def)
    with True Cons.IH show ?thesis by simp
  next
    case False
    with Cons.IH show ?thesis by (simp split: sum.splits)
  qed
qed

lemma routed_db_keys:
  assumes "(k, v) \<in> set args" "v \<noteq> PNone" "str_in ''db'' k"
  shows "str_replace ''db_'' [] k \<in> dom (map_of (rev (routed_db args)))"
proof -
  have "(k, v) \<in> set (filter (\<lambda>kv. snd kv \<noteq> PNone \<and> str_in ''db'' (fst kv)) args)"
    using assms by simp
  then have "(str_replace ''db_'' [] k, v) \<in> set (routed_db args)"
    unfolding routed_db_def set_map by (rule rev_image_eqI) simp
  then have "str_replace ''db_'' [] k \<in> fst ` set (rev (routed_db args))"
    by (simp add: rev_image_eqI)
  then show ?thesis by (simp only: dom_map_of_conv_image_fst)
qed

lemma routed_fractal_keys:
  "k \<in> dom (map_of (rev (routed_fractal names args))) \<Longrightarrow> \<not> str_in ''db'' k"
  by (auto simp: dom_map_of_conv_image_fst routed_fractal_def)

text \<open>
  C9. In the loop of \<open>parse_args\<close> every key that contains \<open>db\<close> anywhere, and whose
  value is not \<open>None\<close>, ends up in the database group under its name with \<open>db_\<close> taken
  out (the last such entry giving the value), and never among the server settings; no
  entry of the result or of its two groups holds \<open>None\<close>, and the entries whose value is
  \<open>None\<close> change nothing: without them the result is the same. Keys named \<open>database\<close>
  or \<open>fractal\<close>, which would replace a whole group, are taken to occur only as names of
  server settings, as is the case for the options the parser declares.
\<close>

theorem parse_args_routes_db_keys:
  assumes cmd: "map_of args ''cmd'' = Some c" "c \<noteq> PNone"
    and grp: "\<And>g v. (g, v) \<in> set args \<Longrightarrow> g = ''database'' \<or> g = ''fractal'' \<Longrightarrow>
                g \<in> set (field_names (fractal_fields sch)) \<or> v = PNone"
  shows "\<exists>ret db fr.
     parse_args sch args w = (Inr ret, w) \<and>
     map_of ret ''database'' = Some (PDict db) \<and>
     map_of ret ''fractal'' = Some (PDict fr) \<and>
     map_of db = map_of (rev (routed_db args)) \<and>
     (\<forall>k v. (k, v) \<in> set args \<and> v \<noteq> PNone \<and> str_in ''db'' k \<longrightarrow> str_replace ''db_'' [] k \<in> dom (map_of db)) \<and>
     (\<forall>k. k \<in> dom (map_of fr) \<longrightarrow> \<not> str_in ''db'' k) \<and>
     no_none ret \<and> no_none db \<and> no_none fr \<and>
     parse_args sch (filter (\<lambda>kv. snd kv \<noteq> PNone) args) w = (Inr ret, w)"
proof -
  let ?init = "[(''database'', PDict []), (''fractal'', PDict [])]"
  let ?names = "field_names (fractal_fields sch)"
  have "\<exists>ret' db' fr'. move_args ?names ?init args = Inr ret' \<and>
     map_of ret' ''database'' = Some (PDict db') \<and>
     map_of ret' ''fractal'' = Some (PDict fr') \<and>
     map_of db' = map_of [] ++ map_of (rev (routed_db args)) \<and>
     map_of fr' = map_of [] ++ map_of (rev (routed_fractal ?names args)) \<and>
     no_none ret' \<and> no_none db' \<and> no_none fr'"
    by (rule move_args_groups) (use grp in \<open>auto simp: no_none_def\<close>)
  then obtain ret db fr where m: "move_args ?names ?init args = Inr ret"
    and d: "map_of ret ''database'' = Some (PDict db)"
    and f: "map_of ret ''fractal'' = Some (PDict fr)"
    and dm: "map_of db = map_of (rev (routed_db args))"
    and fm: "map_of fr = map_of (rev (routed_fractal ?names args))"
    and nn: "no_none ret" "no_none db" "no_none fr"
    by auto
  have p: "parse_args sch args w = (Inr ret, w)"
    using m cmd by (cases c) (simp_all add: parse_args_def bind_io_def lift_io_def done_io_def)
  have "map_of (filter (\<lambda>kv. snd kv \<noteq> PNone) args) ''cmd'' = Some c"
    using cmd by (induction args) (auto split: if_splits)
  then have p': "parse_args sch (filter (\<lambda>kv. snd kv \<noteq> PNone) args) w = (Inr ret, w)"
    using m cmd(2) by (cases c) (simp_all add: parse_args_def bind_io_def lift_io_def done_io_def move_args_drops_none)
  show ?thesis
    using p p' d f dm fm nn routed_db_keys[of _ _ args] routed_fractal_keys[of _ ?names args]
    by (intro exI[of _ ret] exI[of _ db] exI[of _ fr]) (simp; blast)
qed


theorem parse_args_routes_db_keys_witness:
  "map_of example_cli_options ''cmd'' = Some (PStr ''init'') \<and>
   (\<exists>ret db. parse_args example_schema example_cli_options example_world = (Inr ret, example_world) \<and>
      map_of ret ''database'' = Some (PDict db) \<and>
      map_of db ''port'' = Some (PInt 5433) \<and>
      map_of db ''mydb'' = Some (PStr ''x'') \<and>
      map_of db ''host'' = None)"
proof -
  have c: "map_of example_cli_options ''cmd'' = Some (PStr ''init'')" "PStr ''init'' \<noteq> PNone"
    by (simp_all add: example_cli_options_def)
  have g: "\<And>g v. (g, v) \<in> set example_cli_options \<Longrightarrow> g = ''database'' \<or> g = ''fractal'' \<Longrightarrow>
             g \<in> set (field_names (fractal_fields example_schema)) \<or> v = PNone"
    by (auto simp: example_cli_options_def)
  from parse_args_routes_db_keys[OF c g, of example_world]
  obtain ret db where r: "parse_args example_schema example_cli_options example_world = (Inr ret, example_world)"
    "map_of ret ''database'' = Some (PDict db)"
    "map_of db = map_of (rev (routed_db example_cli_options))"
    by blast
  have "map_of db ''port'' = Some (PInt 5433)" "map_of db ''mydb'' = Some (PStr ''x'')"
    "map_of db ''host'' = None"
    unfolding r(3) by (simp_all add: routed_db_def example_cli_options_def)
  with r(1,2) c(1) show ?thesis by blast
qed

section \<open>The merge of command line and persisted record\<close>

text \<open>
  Line 158 for any two dictionaries: every server setting the persisted record has keeps
  its persisted value in the merged dictionary, whatever the command line gave, and the
  other groups are those of the persisted record.
\<close>

lemma dict_unpack2_map: "map_of (dict_unpack2 a b) = map_of a ++ map_of (rev b)"
  unfolding dict_unpack2_def
proof (induction b arbitrary: a)
  case Nil
  show ?case by simp
next
  case (Cons kv b)
  have "map_of (AList.update (fst kv) (snd kv) a) ++ map_of (rev b) =
        map_of a ++ (map_of [kv] ++ map_of (rev b))"
    by (cases kv) (simp add: update_conv' map_add_assoc[symmetric] map_add_upd)
  then show ?case by (simp add: Cons.IH)
qed

lemma map_of_rev_Some:
  assumes "distinct (map fst xs)" and "map_of xs k = Some v"
  shows "map_of (rev xs) k = Some v"
proof -
  have "(k, v) \<in> set (rev xs)" using assms(2) by (simp add: map_of_SomeD)
  moreover have "map fst (rev xs) = rev (map fst xs)" by (rule rev_map[symmetric])
  then have "distinct (map fst (rev xs))" using assms(1) by (simp only: distinct_rev)
  ultimately show ?thesis by (rule map_of_is_SomeI[rotated])
qed

lemma merge_fractal_persisted_wins:
  assumes m: "merge_fractal file_dict config_dict = Inr d"
    and f: "map_of file_dict ''fractal'' = Some (PDict f)"
    and dist: "distinct (map fst f)"
  shows "\<exists>merged. map_of d ''fractal'' = Some (PDict merged) \<and>
           (\<forall>k v. map_of f k = Some v \<longrightarrow> map_of merged k = Some v)"
proof -
  from m obtain c where d: "d = AList.update ''fractal'' (PDict (dict_unpack2 c f)) (AList.delete ''fractal'' file_dict)"
    using f by (auto simp: merge_fractal_def bind_exn_def dict_pop_def split: option.splits pyval.splits)
  have "map_of f k = Some v \<Longrightarrow> map_of (dict_unpack2 c f) k = Some v" for k v
    using map_of_rev_Some[OF dist] by (simp add: dict_unpack2_map map_add_Some_iff)
  then show ?thesis by (simp add: d update_conv')
qed

lemma merge_fractal_keeps_other_groups:
  assumes m: "merge_fractal file_dict config_dict = Inr d" and g: "g \<noteq> ''fractal''"
  shows "map_of d g = map_of file_dict g"
  using assms
  by (auto simp: merge_fractal_def bind_exn_def dict_pop_def update_conv' delete_conv'
      split: option.splits pyval.splits)

text \<open>
  C1. \<open>config\<close> is asked for port 8888 and for another datastore host, on an
  installation whose persisted record has port 7777. The datastore settings and the base
  directory come from the persisted record, as the claim says; the port does too: the
  command prints the persisted record unchanged, since line 158 unpacks the persisted
  server settings after those of the command line.
\<close>

theorem main_config_keeps_persisted_port:
  "main example_schema None [] (Some (example_args ''config'')) example_world =
     (Inr (),
      example_world\<lparr>trace :=
        [ReadText ''qcf/qcfractal_config.yaml'',
         Print (Line (''Displaying QCFractal configuration:'' @ nl)),
         Print (Dump (PDict example_record))]\<rparr>)"
  by (simp add: io_defs fs_defs cfg_defs cli_defs example_defs)

section \<open>init in the module as it stands\<close>

text \<open>
  \<open>server_init\<close> reads \<open>args\<close> at line 80, and nothing in the module binds that
  name: it is a parameter of \<open>main\<close> and a local of \<open>parse_args\<close> only. So the call
  prints its banner, makes sure of the base directory and ends with NameError, or before
  that with an error of \<open>mkdir\<close>. All it can change in the file system is to make the
  base directory.
\<close>

lemma mkdir_result:
  "fst (mkdir p w) \<in> {Inr (), Inl FileExistsError, Inl FileNotFoundError, Inl NotADirectoryError}"
  by (simp add: mkdir_def no_entry_def Let_def split: option.splits node.splits)

lemma mkdir_world:
  assumes "mkdir p w = (r, w')"
  shows "trace w' = trace w @ [Mkdir p]"
    and "stdin w' = stdin w"
    and "q \<noteq> p \<Longrightarrow> map_of (fs w') q = map_of (fs w) q"
    and "is_dir w p \<Longrightarrow> fs w' = fs w"
  using assms
  by (auto simp: mkdir_def is_dir_def Let_def update_conv' split: option.splits node.splits if_splits)

lemma server_init_unbound:
  "server_init sch None config =
     then_io (print banner) (then_io (mkdir (base_path config)) (raise NameError))"
  by (rule ext) (simp add: server_init_def io_defs banner_def split: sum.splits prod.splits)

lemma server_init_unbound_args:
  "fst (server_init sch None config w) \<in>
     {Inl NameError, Inl FileExistsError, Inl FileNotFoundError, Inl NotADirectoryError}"
proof -
  let ?w1 = "w\<lparr>trace := trace w @ [Print (Line banner)]\<rparr>"
  obtain r2 w2 where mk: "mkdir (base_path config) ?w1 = (r2, w2)"
    by (cases "mkdir (base_path config) ?w1")
  have "r2 \<in> {Inr (), Inl FileExistsError, Inl FileNotFoundError, Inl NotADirectoryError}"
    using mkdir_result[of "base_path config" ?w1] mk by simp
  moreover have "server_init sch None config w =
      (case r2 of Inl e \<Rightarrow> (Inl e, w2) | Inr u \<Rightarrow> (Inl NameError, w2))"
    using mk by (simp add: server_init_unbound io_defs split: sum.splits)
  ultimately show ?thesis by auto
qed

lemma server_init_unbound_world:
  assumes "server_init sch None config w = (r, w')"
  shows "trace w' = trace w @ [Print (Line banner), Mkdir (base_path config)]"
    and "stdin w' = stdin w"
    and "q \<noteq> base_path config \<Longrightarrow> map_of (fs w') q = map_of (fs w) q"
    and "is_dir w (base_path config) \<Longrightarrow> fs w' = fs w"
proof -
  let ?w1 = "w\<lparr>trace := trace w @ [Print (Line banner)]\<rparr>"
  obtain r2 w2 where mk: "mkdir (base_path config) ?w1 = (r2, w2)"
    by (cases "mkdir (base_path config) ?w1")
  have "server_init sch None config w =
      (case r2 of Inl e \<Rightarrow> (Inl e, w2) | Inr u \<Rightarrow> (Inl NameError, w2))"
    using mk by (simp add: server_init_unbound io_defs split: sum.splits)
  with assms have w': "w' = w2" by (simp split: sum.splits)
  show "trace w' = trace w @ [Print (Line banner), Mkdir (base_path config)]"
    using mkdir_world(1)[OF mk] by (simp add: w')
  show "stdin w' = stdin w"
    using mkdir_world(2)[OF mk] by (simp add: w')
  show "map_of (fs w') q = map_of (fs w) q" if "q \<noteq> base_path config"
    using mkdir_world(3)[OF mk that] by (simp add: w')
  show "fs w' = fs w" if "is_dir w (base_path config)"
    using mkdir_world(4)[OF mk] that by (simp add: w' is_dir_def)
qed

section \<open>start\<close>

text \<open>
  C5. No \<open>start\<close> returns: whatever the other arguments and the world, \<open>main\<close> ends in
  an exception. On the installation above, with a valid persisted record, it is the
  \<open>Exception\<close> of line 166, raised right after the merge.
\<close>

theorem main_start_raises:
  "fst (main sch module_args cli (Some ((''cmd'', PStr ''start'') # rest)) w) \<noteq> Inr ()"
  by (auto simp: main_def io_defs dict_pop_def split: sum.splits prod.splits)

lemma main_start_example:
  "main example_schema None [] (Some (example_args ''start'')) example_world =
     (Inl Exception, example_world\<lparr>trace := [ReadText ''qcf/qcfractal_config.yaml'']\<rparr>)"
  by (simp add: io_defs fs_defs cfg_defs cli_defs example_defs)

section \<open>What is printed of the password\<close>

text \<open>The last line \<open>server_config\<close> prints shows the password of the configuration.\<close>

lemma server_config_prints_password:
  "printed_password (last (trace (snd (server_config config w)))) = map_of (database config) ''password''"
  by (simp add: server_config_def io_defs printed_password_def FractalConfig_dict_def)

text \<open>
  C6. \<open>config\<close> on the installation above adds three events to the trace: the read
  of the configuration file, the heading and the dump of the configuration. The dump
  shows the stored password as it is.
\<close>

theorem main_config_prints_password:
  "map printed_password (trace (snd (main example_schema None [] (Some example_show) example_world))) =
     [None, None, Some (PStr ''s3cret'')]"
  by (simp add: io_defs fs_defs cfg_defs cli_defs example_defs example_show_def printed_password_def)

section \<open>Which events a command adds to the trace\<close>

lemma appendsD: "appends P m \<Longrightarrow> m w = (r, w') \<Longrightarrow> \<exists>es. trace w' = trace w @ es \<and> list_all P es"
  unfolding appends_def by (metis snd_conv)

lemma appends_at: "appends P m \<Longrightarrow> \<exists>es. trace (snd (m w)) = trace w @ es \<and> list_all P es"
  unfolding appends_def by blast

lemma appends_done: "appends P (done_io x)"
  by (simp add: appends_def done_io_def)

lemma appends_raise: "appends P (raise e)"
  by (simp add: appends_def raise_def)

lemma appends_sys_exit: "appends P (sys_exit n)"
  by (simp add: sys_exit_def appends_raise)

lemma appends_lift: "appends P (lift_io r)"
  by (simp add: appends_def lift_io_def)

lemma appends_emit: "P e \<Longrightarrow> appends P (emit e)"
  by (simp add: appends_def emit_def)

lemma appends_print: "P (Print (Line s)) \<Longrightarrow> appends P (print s)"
  by (simp add: print_def appends_emit)

lemma appends_bind:
  assumes "appends P m" and "\<And>x. appends P (f x)"
  shows "appends P (bind_io m f)"
  unfolding appends_def
proof
  fix w
  obtain r w1 where m: "m w = (r, w1)" by (cases "m w")
  from appendsD[OF assms(1) m] obtain es1 where e1: "trace w1 = trace w @ es1" "list_all P es1" by blast
  show "\<exists>es. trace (snd (bind_io m f w)) = trace w @ es \<and> list_all P es"
  proof (cases r)
    case (Inl e)
    then show ?thesis using m e1 by (simp add: bind_io_def)
  next
    case (Inr x)
    obtain r2 w2 where f: "f x w1 = (r2, w2)" by (cases "f x w1")
    from appendsD[OF assms(2) f] obtain es2 where e2: "trace w2 = trace w1 @ es2" "list_all P es2" by blast
    have "trace (snd (bind_io m f w)) = trace w @ (es1 @ es2)"
      using m Inr f e1 e2 by (simp add: bind_io_def)
    moreover have "list_all P (es1 @ es2)" using e1 e2 by simp
    ultimately show ?thesis by blast
  qed
qed

lemma appends_then: "appends P m \<Longrightarrow> appends P k \<Longrightarrow> appends P (then_io m k)"
  by (simp add: then_io_def appends_bind)

lemma appends_world: "(\<And>v. appends P (f v)) \<Longrightarrow> appends P (\<lambda>w. f w w)"
  unfolding appends_def by blast

lemma appends_mkdir: "P (Mkdir p) \<Longrightarrow> appends P (mkdir p)"
  by (auto simp: appends_def mkdir_def Let_def split: option.splits node.splits)

lemma appends_read_text: "P (ReadText p) \<Longrightarrow> appends P (read_text p)"
  by (auto simp: appends_def read_text_def Let_def split: option.splits node.splits)

section \<open>main, once the arguments are there\<close>

lemma parse_args_world: "parse_args sch cli w = (Inr a, w') \<Longrightarrow> w' = w"
  by (auto simp: parse_args_def io_defs split: sum.splits option.splits pyval.splits)

lemma arguments_world: "arguments sch cli args w = (Inr a, w') \<Longrightarrow> w' = w"
  by (auto simp: arguments_def done_io_def dest: parse_args_world split: option.splits)

lemma main_after_arguments:
  assumes "arguments sch cli args w = (Inr a, w)"
  shows "main sch g cli args w =
     bind_io (lift_io (dict_pop a ''cmd'')) (\<lambda>popped.
     bind_io (lift_io (FractalConfig_new sch (snd popped))) (\<lambda>config.
     bind_io (if fst popped \<noteq> PStr ''init'' then merge_files sch config else done_io config) (\<lambda>config1.
       if fst popped = PStr ''init'' then server_init sch g config1
       else if fst popped = PStr ''config'' then server_config config1
       else raise Exception))) (w\<lparr>trace := trace w @ echo_of args a\<rparr>)"
  using assms by (cases args) (simp_all add: main_def arguments_def echo_of_def io_defs)

lemma main_arguments_fail:
  assumes "arguments sch cli args w = (Inl e, w1)"
  shows "main sch g cli args w = (Inl e, w1)"
  using assms by (cases args) (simp_all add: main_def arguments_def io_defs)

section \<open>Commands other than init and config\<close>

text \<open>
  Whatever the source of the arguments, a command that is neither \<open>init\<close> nor
  \<open>config\<close> (\<open>start\<close> is the one the parser knows) ends in an exception.
\<close>

lemma main_other_command_raises:
  assumes a: "arguments sch cli args w = (Inr a, w1)"
    and cmd: "dict_pop a ''cmd'' = Inr (cmd, rest)" "cmd \<noteq> PStr ''init''" "cmd \<noteq> PStr ''config''"
  shows "\<exists>e. fst (main sch module_args cli args w) = Inl e"
proof -
  have w1: "w1 = w" using a by (rule arguments_world)
  show ?thesis
    unfolding main_after_arguments[OF a[unfolded w1]]
    using cmd by (auto simp: io_defs split: sum.splits prod.splits)
qed

section \<open>init without the overwrite flag\<close>

text \<open>The exceptions each step of \<open>main\<close> can end with.\<close>

lemma move_arg_error: "move_arg names ret kv = Inl e \<Longrightarrow> e = KeyError \<or> e = TypeError"
  by (auto simp: move_arg_def setitem_in_def Let_def split: if_splits option.splits pyval.splits)

lemma move_args_error: "move_args names ret kvs = Inl e \<Longrightarrow> e = KeyError \<or> e = TypeError"
proof (induction kvs arbitrary: ret)
  case Nil
  then show ?case by simp
next
  case (Cons kv kvs)
  then show ?case by (auto split: sum.splits dest: move_arg_error)
qed

lemma parse_args_error:
  assumes "parse_args sch cli w = (Inl e, w')"
  shows "e = KeyError \<or> e = TypeError \<or> e = SystemExit 1"
proof (cases "move_args (field_names (fractal_fields sch)) [(''database'', PDict []), (''fractal'', PDict [])] cli")
  case (Inl e')
  with assms have "e = e'" by (simp add: parse_args_def io_defs)
  with move_args_error[OF Inl] show ?thesis by blast
next
  case (Inr ret)
  with assms show ?thesis
    by (auto simp: parse_args_def io_defs split: option.splits pyval.splits)
qed

lemma arguments_error:
  assumes "arguments sch cli args w = (Inl e, w')"
  shows "e = KeyError \<or> e = TypeError \<or> e = SystemExit 1"
  using assms by (cases args) (auto simp: arguments_def done_io_def dest: parse_args_error)

lemma FractalConfig_new_error: "FractalConfig_new sch kwargs = Inl e \<Longrightarrow> e = ValidationError"
  by (auto simp: FractalConfig_new_def bind_exn_def base_arg_def group_arg_def
      split: if_splits sum.splits option.splits pyval.splits)

lemma merge_fractal_error: "merge_fractal file_dict config_dict = Inl e \<Longrightarrow> e = KeyError \<or> e = TypeError"
  by (auto simp: merge_fractal_def bind_exn_def dict_pop_def split: sum.splits option.splits pyval.splits)

lemma read_text_error:
  "read_text p w = (Inl e, w') \<Longrightarrow>
     e = FileNotFoundError \<or> e = NotADirectoryError \<or> e = IsADirectoryError"
  by (auto simp: read_text_def no_entry_def Let_def split: option.splits node.splits)

lemma merge_files_error:
  assumes "merge_files sch config w = (Inl e, w')"
  shows "e \<noteq> SystemExit 2"
proof (cases "path_exists w (base_path config) \<and> path_exists w (config_file_path sch config)")
  case False
  with assms have "e = SystemExit 1" by (auto simp: merge_files_def io_defs split: if_splits)
  then show ?thesis by simp
next
  case True
  obtain rt wt where rt: "read_text (config_file_path sch config) w = (rt, wt)"
    by (cases "read_text (config_file_path sch config) w")
  show ?thesis
  proof (cases rt)
    case (Inl e')
    with assms True rt have "e = e'" by (simp add: merge_files_def io_defs)
    with read_text_error[OF rt[unfolded Inl]] show ?thesis by auto
  next
    case (Inr doc)
    let ?fc = "case yaml_load doc of PDict d \<Rightarrow> FractalConfig_new sch d | _ \<Rightarrow> Inl TypeError"
    show ?thesis
    proof (cases ?fc)
      case fcl: (Inl e')
      with assms True rt Inr have "e = e'" by (simp add: merge_files_def io_defs)
      moreover have "e' = TypeError \<or> e' = ValidationError"
        using fcl by (auto split: pyval.splits dest: FractalConfig_new_error)
      ultimately show ?thesis by auto
    next
      case fcr: (Inr file_config)
      let ?m = "merge_fractal (FractalConfig_dict file_config) (FractalConfig_dict_skip_defaults config)"
      show ?thesis
      proof (cases ?m)
        case ml: (Inl e')
        with assms True rt Inr fcr have "e = e'" by (simp add: merge_files_def io_defs)
        with merge_fractal_error[OF ml] show ?thesis by auto
      next
        case mr: (Inr file_dict)
        with assms True rt Inr fcr have "FractalConfig_new sch file_dict = Inl e"
          by (simp add: merge_files_def io_defs)
        from FractalConfig_new_error[OF this] show ?thesis by simp
      qed
    qed
  qed
qed

lemma server_config_returns: "fst (server_config config w) = Inr ()"
  by (simp add: server_config_def io_defs)

text \<open>
  C3. In the module as it stands (\<open>args\<close> unbound in \<open>server_init\<close>) no run of \<open>main\<close>
  ends with exit code 2, whatever the command, the arguments and the world: an \<open>init\<close>
  ends at line 80 with NameError, if not before. On the installation above, which has
  a configuration file, \<open>init\<close> without the overwrite flag from the command line prints
  the arguments and the banner, finds the base directory in place and raises NameError;
  the file system is as it was.
\<close>

theorem main_unbound_args_never_exits_2:
  "fst (main sch None cli args w) \<noteq> Inl (SystemExit 2)"
proof -
  obtain ra wa where arg: "arguments sch cli args w = (ra, wa)" by (cases "arguments sch cli args w")
  show ?thesis
  proof (cases ra)
    case (Inl e)
    with arg main_arguments_fail[of sch cli args w e wa None] arguments_error[of sch cli args w e wa]
    show ?thesis by auto
  next
    case (Inr a)
    with arg have wa: "wa = w" by (simp add: arguments_world)
    let ?w1 = "w\<lparr>trace := trace w @ echo_of args a\<rparr>"
    note m = main_after_arguments[of sch cli args w a None, OF arg[unfolded Inr wa]]
    show ?thesis
    proof (cases "dict_pop a ''cmd''")
      case (Inl e)
      then have "e = KeyError" by (auto simp: dict_pop_def split: option.splits)
      with Inl show ?thesis unfolding m by (simp add: io_defs)
    next
      case pop: (Inr popped)
      show ?thesis
      proof (cases "FractalConfig_new sch (snd popped)")
        case (Inl e)
        with FractalConfig_new_error[OF Inl] pop show ?thesis unfolding m by (simp add: io_defs)
      next
        case cfg: (Inr config)
        show ?thesis
        proof (cases "fst popped = PStr ''init''")
          case True
          then have "main sch None cli args w = server_init sch None config ?w1"
            unfolding m using pop cfg by (simp add: io_defs)
          with server_init_unbound_args[of sch config ?w1] show ?thesis by auto
        next
          case False
          obtain rm wm where mf: "merge_files sch config ?w1 = (rm, wm)"
            by (cases "merge_files sch config ?w1")
          show ?thesis
          proof (cases rm)
            case (Inl e)
            then have "main sch None cli args w = (Inl e, wm)"
              unfolding m using pop cfg False mf by (simp add: io_defs)
            with merge_files_error[OF mf[unfolded Inl]] show ?thesis by simp
          next
            case c1: (Inr config1)
            have "main sch None cli args w =
                (if fst popped = PStr ''config'' then server_config config1 wm else (Inl Exception, wm))"
              unfolding m using pop cfg False mf c1 by (simp add: io_defs)
            with server_config_returns[of config1 wm] show ?thesis by simp
          qed
        qed
      qed
    qed
  qed
qed

lemma main_init_example:
  "main example_schema None (example_cli_init False) None example_world =
     (Inl NameError,
      example_world\<lparr>trace :=
        [Print (Repr (PDict [(''database'', PDict []), (''fractal'', PDict []),
                             (''cmd'', PStr ''init''), (''overwrite'', PBool False)])),
         Print (Line ''Initializing QCFractal configuration.''),
         Mkdir ''qcf'']\<rparr>)"
  by (simp add: io_defs fs_defs cfg_defs cli_defs example_defs)

section \<open>config and start without an installation\<close>


text \<open>
  C7. A command other than \<open>init\<close> (\<open>config\<close> and \<open>start\<close> are the two the parser
  knows) whose base directory or configuration file is missing ends with exit code 1;
  all it has done by then is to print: the echo of the parsed arguments, when they came
  from the command line, and the line naming the missing path. The file system and the
  rest of the world are as before.
\<close>


theorem main_missing_configuration:
  assumes a: "arguments sch cli args w = (Inr a, w1)"
    and cmd: "dict_pop a ''cmd'' = Inr (cmd, rest)" "cmd \<noteq> PStr ''init''"
    and config: "FractalConfig_new sch rest = Inr config"
    and missing: "\<not> path_exists w (base_path config) \<or> \<not> path_exists w (config_file_path sch config)"
  shows "main sch module_args cli args w =
     (Inl (SystemExit 1),
      w\<lparr>trace := trace w @ echo_of args a @ [Print (Line (missing_report sch config w))]\<rparr>)"
proof -
  have w1: "w1 = w" using a by (rule arguments_world)
  have pe: "\<And>es. path_exists (w\<lparr>trace := es\<rparr>) = path_exists w"
    by (simp add: path_exists_def fun_eq_iff)
  show ?thesis
    unfolding main_after_arguments[OF a[unfolded w1]]
    using cmd config missing
    by (auto simp: merge_files_def io_defs missing_report_def pe)
qed

theorem main_missing_configuration_witness:
  "main example_schema None [] (Some example_elsewhere) example_world =
     (Inl (SystemExit 1),
      example_world\<lparr>trace := [Print (Line ''Could not find configuration file path: nowhere'')]\<rparr>)"
proof -
  let ?rest = "[(''base_folder'', PStr ''nowhere''), (''database'', PDict []), (''fractal'', PDict [])]"
  let ?config = "\<lparr>base_folder = ''nowhere'',
      database = [(''port'', PInt 5432), (''host'', PStr ''localhost''), (''password'', PNone)],
      fractal = [(''port'', PInt 7777), (''logfile'', PNone)],
      given = [(''base_folder'', PStr ''nowhere''), (''database'', PDict []), (''fractal'', PDict [])]\<rparr>"
  have a: "arguments example_schema [] (Some example_elsewhere) example_world = (Inr example_elsewhere, example_world)"
    by (simp add: arguments_def done_io_def)
  have c: "dict_pop example_elsewhere ''cmd'' = Inr (PStr ''start'', ?rest)" "PStr ''start'' \<noteq> PStr ''init''"
    by (simp_all add: dict_pop_def example_elsewhere_def)
  have f: "FractalConfig_new example_schema ?rest = Inr ?config"
    by (simp add: cfg_defs io_defs example_schema_def)
  have m: "\<not> path_exists example_world (base_path ?config) \<or>
           \<not> path_exists example_world (config_file_path example_schema ?config)"
    by (simp add: path_exists_def base_path_def example_world_def)
  from main_missing_configuration[OF a c f m, of None] show ?thesis
    by (simp add: echo_of_def missing_report_def path_exists_def base_path_def example_world_def)
qed

section \<open>What a run of the module as it stands can do\<close>

text \<open>
  With \<open>args\<close> unbound in \<open>server_init\<close>, whatever \<open>main\<close> is given it only prints,
  reads the configuration file and makes the base directory: the shutdown and the set-up
  of the datastore, the removal of the data directory and the write of the settings
  (lines 100, 101, 121 and 125) all lie behind line 80.
\<close>

lemma parse_args_harmless: "appends harmless (parse_args sch cli)"
proof -
  have k: "appends harmless
     (case map_of cli ''cmd'' of
         None \<Rightarrow> raise KeyError
       | Some PNone \<Rightarrow> then_io (emit PrintHelp) (sys_exit 1)
       | Some _ \<Rightarrow> done_io ret)" for ret :: pydict
  proof (cases "map_of cli ''cmd''")
    case None
    then show ?thesis by (simp add: appends_raise)
  next
    case (Some c)
    then show ?thesis
      by (cases c) (simp_all add: appends_done appends_then appends_emit appends_sys_exit harmless_def)
  qed
  show ?thesis
    unfolding parse_args_def by (rule appends_bind[OF appends_lift k])
qed

lemma server_config_harmless: "appends harmless (server_config config)"
  unfolding server_config_def
  by (intro appends_then appends_print appends_emit) (simp_all add: harmless_def)

lemma merge_files_harmless: "appends harmless (merge_files sch config)"
proof -
  let ?P = "harmless"
  have p: "appends ?P (then_io (print s) (sys_exit 1))" for s
    by (intro appends_then appends_print appends_sys_exit) (simp add: harmless_def)
  have r: "appends ?P
     (bind_io (read_text (config_file_path sch config)) (\<lambda>text.
      bind_io (lift_io (case yaml_load text of
                          PDict d \<Rightarrow> FractalConfig_new sch d
                        | _ \<Rightarrow> Inl TypeError)) (\<lambda>file_config.
      bind_io (lift_io (merge_fractal (FractalConfig_dict file_config) (FractalConfig_dict_skip_defaults config))) (\<lambda>file_dict.
      lift_io (FractalConfig_new sch file_dict)))))"
    by (intro appends_bind appends_lift appends_read_text) (simp add: harmless_def)
  show ?thesis
    unfolding appends_def
  proof
    fix w
    have pw: "\<exists>es. trace (snd (then_io (print s) (sys_exit 1) w)) = trace w @ es \<and> list_all ?P es" for s
      by (rule appends_at[OF p])
    show "\<exists>es. trace (snd (merge_files sch config w)) = trace w @ es \<and> list_all ?P es"
    proof (cases "path_exists w (base_path config)")
      case False
      then have "merge_files sch config w =
          then_io (print (''Could not find configuration file path: '' @ base_path config)) (sys_exit 1) w"
        by (simp add: merge_files_def)
      then show ?thesis by (simp only: pw)
    next
      case True
      show ?thesis
      proof (cases "path_exists w (config_file_path sch config)")
        case False
        with True have "merge_files sch config w =
            then_io (print (''Could not find configuration file: '' @ config_file_path sch config)) (sys_exit 1) w"
          by (simp add: merge_files_def)
        then show ?thesis by (simp only: pw)
      next
        case exists: True
        with True have "merge_files sch config w =
           bind_io (read_text (config_file_path sch config)) (\<lambda>text.
            bind_io (lift_io (case yaml_load text of
                          PDict d \<Rightarrow> FractalConfig_new sch d
                        | _ \<Rightarrow> Inl TypeError)) (\<lambda>file_config.
            bind_io (lift_io (merge_fractal (FractalConfig_dict file_config) (FractalConfig_dict_skip_defaults config))) (\<lambda>file_dict.
            lift_io (FractalConfig_new sch file_dict)))) w"
          by (simp add: merge_files_def)
        then show ?thesis using appends_at[OF r, of w] by (simp only:)
      qed
    qed
  qed
qed

lemma server_init_shipped_harmless: "appends harmless (server_init sch None config)"
  unfolding server_init_unbound
  by (intro appends_then appends_print appends_mkdir appends_raise) (simp_all add: harmless_def)

lemma main_shipped_harmless: "appends harmless (main sch None cli args)"
proof -
  have k: "appends harmless
      (if c1 then server_init sch None config1
       else if c2 then server_config config1 else raise Exception)" for c1 c2 config1
    by (simp add: server_init_shipped_harmless server_config_harmless appends_raise)
  have m: "appends harmless (if c then merge_files sch config else done_io config)" for c config
    by (simp add: merge_files_harmless appends_done)
  have e: "appends harmless (then_io (emit (Print (Repr (PDict a)))) (done_io a))" for a
    by (intro appends_then appends_emit appends_done) (simp add: harmless_def)
  have a: "appends harmless
      (case args of
         None \<Rightarrow> bind_io (parse_args sch cli) (\<lambda>a. then_io (emit (Print (Repr (PDict a)))) (done_io a))
       | Some a \<Rightarrow> done_io a)"
    by (cases args) (simp_all add: appends_bind parse_args_harmless e appends_done)
  show ?thesis
    unfolding main_def by (intro appends_bind appends_lift a m k)
qed

lemma harmless_events:
  assumes "list_all harmless es"
  shows "Rmtree p \<notin> set es" and "ShutdownPostgres c \<notin> set es" and "InitializePostgres c \<notin> set es"
    and "OpenW p \<notin> set es" and "WriteData p d \<notin> set es"
  using assms by (auto simp: list_all_iff harmless_def)

lemma main_shipped_events:
  "list_all harmless (drop (length (trace w)) (trace (snd (main sch None cli args w))))"
  using appends_at[OF main_shipped_harmless, of sch cli args w] by auto

section \<open>init with the overwrite flag\<close>

text \<open>
  The test of line 98 does not look at what the operator types: line 95 is a comment and
  line 96 binds \<open>inp\<close> to the literal itself. The lines 84 to 104 leave \<open>stdin\<close> as it
  is and do the same whatever it holds.
\<close>

lemma existing_config_ignores_stdin:
  "stdin (snd (existing_config sch overwrite config w)) = stdin w"
  "existing_config sch overwrite config (w\<lparr>stdin := s\<rparr>) =
     (fst (existing_config sch overwrite config w), (snd (existing_config sch overwrite config w))\<lparr>stdin := s\<rparr>)"
  by (simp_all add: existing_config_def io_defs shutdown_postgres_def rmtree_def is_dir_def Let_def)

text \<open>
  C2. \<open>init\<close> with the overwrite flag of the invocation set, on a base directory whose
  configuration file exists, the operator typing something other than the sentinel: the
  run ends with an exception, so with exit status 1; all it has added to the trace is the
  echo of the arguments, the banner and the \<open>mkdir\<close> of the base directory, so there is
  no shutdown, no removal and no write; the configuration file and everything at or below
  the data directory are as before, the whole file system is when the base directory is a
  directory, and what was typed has not been read. The run ends at line 80 (or in the
  \<open>mkdir\<close> of line 79), before the test of line 98 is reached.
\<close>

theorem init_overwrite_aborts_without_removal:
  assumes a: "arguments sch cli args w = (Inr a, w1)"
    and cmd: "dict_pop a ''cmd'' = Inr (PStr ''init'', rest)"
    and flag: "truthy (dict_get a ''overwrite'' (PBool False))"
    and config: "FractalConfig_new sch rest = Inr config"
    and there: "path_exists w (config_file_path sch config)"
    and typed: "stdin w = typed # later" "typed \<noteq> ''REMOVEALLDATA''"
  shows "\<exists>e w'. main sch None cli args w = (Inl e, w') \<and>
      exit_status (Inl e) = 1 \<and>
      trace w' = trace w @ echo_of args a @ [Print (Line banner), Mkdir (base_path config)] \<and>
      map_of (fs w') (config_file_path sch config) = map_of (fs w) (config_file_path sch config) \<and>
      (\<forall>q. below (database_path sch config) q \<longrightarrow> map_of (fs w') q = map_of (fs w) q) \<and>
      (is_dir w (base_path config) \<longrightarrow> fs w' = fs w) \<and>
      stdin w' = typed # later"
proof -
  have w1: "w1 = w" using a by (rule arguments_world)
  let ?w1 = "w\<lparr>trace := trace w @ echo_of args a\<rparr>"
  have m: "main sch None cli args w = server_init sch None config ?w1"
    unfolding main_after_arguments[OF a[unfolded w1]] using cmd config by (simp add: io_defs)
  obtain r w' where run: "server_init sch None config ?w1 = (r, w')"
    by (cases "server_init sch None config ?w1")
  from server_init_unbound_args[of sch config ?w1] run
  obtain e where r: "r = Inl e" and e: "exit_status (Inl e) = 1"
    by (auto simp: exit_status_def)
  note world = server_init_unbound_world[OF run]
  have cfg: "config_file_path sch config \<noteq> base_path config"
    by (simp add: config_file_path_def base_path_def)
  have db: "q \<noteq> base_path config" if "below (database_path sch config) q" for q
    using that by (auto simp: below_def database_path_def base_path_def)
  have "map_of (fs w') q = map_of (fs w) q" if "below (database_path sch config) q" for q
    using world(3)[OF db[OF that]] by simp
  moreover have "map_of (fs w') (config_file_path sch config) = map_of (fs w) (config_file_path sch config)"
    using world(3)[OF cfg] by simp
  moreover have "fs w' = fs w" if "is_dir w (base_path config)"
    using world(4) that by (simp add: is_dir_def)
  moreover have "trace w' = trace w @ echo_of args a @ [Print (Line banner), Mkdir (base_path config)]"
    using world(1) by simp
  moreover have "stdin w' = typed # later" using world(2) typed(1) by simp
  ultimately show ?thesis using m run r e by auto
qed

theorem init_overwrite_aborts_without_removal_witness:
  "truthy (dict_get example_parsed ''overwrite'' (PBool False)) \<and>
   path_exists example_world (config_file_path example_schema example_init_config) \<and>
   stdin example_world = [''NO''] \<and>
   (\<exists>e w'. main example_schema None (example_cli_init True) None example_world = (Inl e, w') \<and>
      exit_status (Inl e) = 1 \<and>
      fs w' = fs example_world \<and>
      trace w' = [Print (Repr (PDict example_parsed)), Print (Line banner), Mkdir ''qcf''])"
proof -
  let ?rest = "[(''database'', PDict []), (''fractal'', PDict []), (''overwrite'', PBool True)]"
  have a: "arguments example_schema (example_cli_init True) None example_world = (Inr example_parsed, example_world)"
    by (simp add: arguments_def cli_defs io_defs example_defs)
  have c: "dict_pop example_parsed ''cmd'' = Inr (PStr ''init'', ?rest)"
    by (simp add: dict_pop_def example_parsed_def)
  have f: "truthy (dict_get example_parsed ''overwrite'' (PBool False))"
    by (simp add: dict_get_def example_parsed_def)
  have g: "FractalConfig_new example_schema ?rest = Inr example_init_config"
    by (simp add: cfg_defs io_defs example_defs)
  have t: "path_exists example_world (config_file_path example_schema example_init_config)"
    by (simp add: path_exists_def config_file_path_def example_defs)
  have s: "stdin example_world = ''NO'' # []" "''NO'' \<noteq> ''REMOVEALLDATA''"
    by (simp_all add: example_world_def)
  have d: "is_dir example_world (base_path example_init_config)"
    by (simp add: is_dir_def base_path_def example_defs)
  from init_overwrite_aborts_without_removal[OF a c f g t s]
  obtain e w' where "main example_schema None (example_cli_init True) None example_world = (Inl e, w')"
    "exit_status (Inl e) = 1"
    "trace w' = trace example_world @ echo_of None example_parsed @
        [Print (Line banner), Mkdir (base_path example_init_config)]"
    "is_dir example_world (base_path example_init_config) \<longrightarrow> fs w' = fs example_world"
    by blast
  with d have "main example_schema None (example_cli_init True) None example_world = (Inl e, w')"
    "exit_status (Inl e) = 1" "fs w' = fs example_world"
    "trace w' = [Print (Repr (PDict example_parsed)), Print (Line banner), Mkdir ''qcf'']"
    by (simp_all add: echo_of_def base_path_def example_world_def example_init_config_def)
  with f t s(1) show ?thesis by blast
qed

text \<open>
  C4. \<open>init --overwrite\<close> from the command line on the installation above, the operator
  typing the sentinel: the path on which lines 100 and 101 shut the datastore down and
  then remove the data directory. The run ends with NameError at line 80, having printed
  the arguments and the banner and found the base directory in place; the datastore is
  not shut down and nothing is removed. Nor is it in any other run of the module as it
  stands: whatever the command, the arguments and the world, the events a run adds hold
  no removal and no shutdown.
\<close>

theorem init_overwrite_confirmed_stops_at_line_80:
  "main example_schema None (example_cli_init True) None (example_world\<lparr>stdin := [''REMOVEALLDATA'']\<rparr>) =
     (Inl NameError,
      example_world\<lparr>stdin := [''REMOVEALLDATA''],
        trace :=
          [Print (Repr (PDict example_parsed)),
           Print (Line ''Initializing QCFractal configuration.''),
           Mkdir ''qcf'']\<rparr>) \<and>
   Rmtree p \<notin> set (drop (length (trace w)) (trace (snd (main sch None cli args w)))) \<and>
   ShutdownPostgres c \<notin> set (drop (length (trace w)) (trace (snd (main sch None cli args w))))"
proof (intro conjI)
  show "main example_schema None (example_cli_init True) None (example_world\<lparr>stdin := [''REMOVEALLDATA'']\<rparr>) =
     (Inl NameError,
      example_world\<lparr>stdin := [''REMOVEALLDATA''],
        trace :=
          [Print (Repr (PDict example_parsed)),
           Print (Line ''Initializing QCFractal configuration.''),
           Mkdir ''qcf'']\<rparr>)"
    by (simp add: io_defs fs_defs cfg_defs cli_defs example_defs)
  show "Rmtree p \<notin> set (drop (length (trace w)) (trace (snd (main sch None cli args w))))"
    by (rule harmless_events(1)[OF main_shipped_events])
  show "ShutdownPostgres c \<notin> set (drop (length (trace w)) (trace (snd (main sch None cli args w))))"
    by (rule harmless_events(2)[OF main_shipped_events])
qed

section \<open>Writing the settings\<close>

text \<open>
  C8, as the claim states it, fails. On the installation above the configuration file
  holds the old record. The write of line 125 is the \<open>open\<close> followed by the \<open>write\<close>,
  and in the world between the two the path holds an empty file, which is neither the old
  record nor the new one.
\<close>

theorem write_settings_passes_through_empty_file:
  "map_of (fs example_world) ''qcf/qcfractal_config.yaml'' = Some (File (Doc (PDict example_record))) \<and>
   fst (open_w ''qcf/qcfractal_config.yaml'' example_world) = Inr () \<and>
   write_settings example_schema example_config example_world =
     file_write ''qcf/qcfractal_config.yaml'' (yaml_dump (PDict (FractalConfig_dict example_config)))
       (snd (open_w ''qcf/qcfractal_config.yaml'' example_world)) \<and>
   map_of (fs (snd (open_w ''qcf/qcfractal_config.yaml'' example_world))) ''qcf/qcfractal_config.yaml'' =
     Some (File Empty) \<and>
   File Empty \<noteq> File (Doc (PDict example_record)) \<and>
   File Empty \<noteq> File (yaml_dump (PDict (FractalConfig_dict example_config)))"
  by (simp add: write_settings_def write_text_def open_w_def file_write_def io_defs is_dir_def
      parent_ok_def parent_def config_file_path_def yaml_dump_def example_schema_def
      example_world_def example_config_def Let_def)

text \<open>
  C8, amended. The write of line 125 is done in place, on the path of the configuration
  file itself. When the path is not a directory and its parent is one, the \<open>open\<close>
  succeeds and leaves an empty file at the path; the \<open>write\<close> that follows puts the
  complete new record there; \<open>write_settings\<close> is the one followed by the other and ends
  in the world the second leaves. No other path changes in either step, and the two steps
  are all the write adds to the trace: there is no temporary file and no rename. In the
  module as it stands no run of \<open>main\<close> gets as far: the events a run adds are all
  harmless, so none of them is an \<open>open\<close> or a \<open>write\<close>.
\<close>

theorem write_settings_in_place:
  assumes "\<not> is_dir w (config_file_path sch config)"
    and "parent_ok w (config_file_path sch config)"
  shows "(\<exists>w1 w2.
      open_w (config_file_path sch config) w = (Inr (), w1) \<and>
      file_write (config_file_path sch config) (yaml_dump (PDict (FractalConfig_dict config))) w1 = (Inr (), w2) \<and>
      write_settings sch config w = (Inr (), w2) \<and>
      map_of (fs w1) (config_file_path sch config) = Some (File Empty) \<and>
      map_of (fs w2) (config_file_path sch config) =
        Some (File (yaml_dump (PDict (FractalConfig_dict config)))) \<and>
      (\<forall>q. q \<noteq> config_file_path sch config \<longrightarrow>
           map_of (fs w1) q = map_of (fs w) q \<and> map_of (fs w2) q = map_of (fs w) q) \<and>
      trace w2 = trace w @
        [OpenW (config_file_path sch config),
         WriteData (config_file_path sch config) (yaml_dump (PDict (FractalConfig_dict config)))]) \<and>
     list_all harmless (drop (length (trace v)) (trace (snd (main sch' None cli args v))))"
proof
  let ?p = "config_file_path sch config"
  let ?d = "yaml_dump (PDict (FractalConfig_dict config))"
  let ?w1 = "w\<lparr>trace := trace w @ [OpenW ?p], fs := AList.update ?p (File Empty) (fs w)\<rparr>"
  let ?w2 = "?w1\<lparr>fs := AList.update ?p (File ?d) (fs ?w1), trace := trace ?w1 @ [WriteData ?p ?d]\<rparr>"
  have o: "open_w ?p w = (Inr (), ?w1)" using assms by (simp add: open_w_def Let_def)
  have f: "file_write ?p ?d ?w1 = (Inr (), ?w2)" by (simp add: file_write_def)
  have t: "write_settings sch config w = (Inr (), ?w2)"
    using o f by (simp add: write_settings_def write_text_def io_defs)
  have "map_of (fs ?w1) ?p = Some (File Empty)" "map_of (fs ?w2) ?p = Some (File ?d)"
    "\<forall>q. q \<noteq> ?p \<longrightarrow> map_of (fs ?w1) q = map_of (fs w) q \<and> map_of (fs ?w2) q = map_of (fs w) q"
    "trace ?w2 = trace w @ [OpenW ?p, WriteData ?p ?d]"
    by (simp_all add: update_conv')
  with o f t show "\<exists>w1 w2.
      open_w ?p w = (Inr (), w1) \<and> file_write ?p ?d w1 = (Inr (), w2) \<and>
      write_settings sch config w = (Inr (), w2) \<and>
      map_of (fs w1) ?p = Some (File Empty) \<and> map_of (fs w2) ?p = Some (File ?d) \<and>
      (\<forall>q. q \<noteq> ?p \<longrightarrow> map_of (fs w1) q = map_of (fs w) q \<and> map_of (fs w2) q = map_of (fs w) q) \<and>
      trace w2 = trace w @ [OpenW ?p, WriteData ?p ?d]"
    by blast
  show "list_all harmless (drop (length (trace v)) (trace (snd (main sch' None cli args v))))"
    by (rule main_shipped_events)
qed

theorem write_settings_in_place_witness:
  "\<not> is_dir example_world (config_file_path example_schema example_config) \<and>
   parent_ok example_world (config_file_path example_schema example_config) \<and>
   (\<exists>w1 w2.
      open_w ''qcf/qcfractal_config.yaml'' example_world = (Inr (), w1) \<and>
      write_settings example_schema example_config example_world = (Inr (), w2) \<and>
      map_of (fs w1) ''qcf/qcfractal_config.yaml'' = Some (File Empty) \<and>
      map_of (fs w2) ''qcf/qcfractal_config.yaml'' =
        Some (File (yaml_dump (PDict (FractalConfig_dict example_config)))) \<and>
      map_of (fs w2) ''qcf/postgres/base'' = Some (File Empty))"
proof -
  have p: "config_file_path example_schema example_config = ''qcf/qcfractal_config.yaml''"
    by (simp add: config_file_path_def example_schema_def example_config_def)
  have d: "\<not> is_dir example_world (config_file_path example_schema example_config)"
    unfolding p by (simp add: is_dir_def example_world_def)
  have k: "parent_ok example_world (config_file_path example_schema example_config)"
    unfolding p by (simp add: parent_ok_def parent_def is_dir_def example_world_def)
  from write_settings_in_place[OF d k]
  obtain w1 w2 where w: "open_w ''qcf/qcfractal_config.yaml'' example_world = (Inr (), w1)"
    "write_settings example_schema example_config example_world = (Inr (), w2)"
    "map_of (fs w1) ''qcf/qcfractal_config.yaml'' = Some (File Empty)"
    "map_of (fs w2) ''qcf/qcfractal_config.yaml'' =
        Some (File (yaml_dump (PDict (FractalConfig_dict example_config))))"
    "\<forall>q. q \<noteq> ''qcf/qcfractal_config.yaml'' \<longrightarrow>
         map_of (fs w1) q = map_of (fs example_world) q \<and> map_of (fs w2) q = map_of (fs example_world) q"
    unfolding p by blast
  from w(5) have "map_of (fs w2) ''qcf/postgres/base'' = Some (File Empty)"
    by (simp add: example_world_def)
  with d k w(1-4) show ?thesis by blast
qed

section \<open>The log file of DQMServer\<close>

text \<open>
  C10, as the claim states it, fails. Given an object whose attribute \<open>logfile\<close> is a
  file name, which is not \<open>None\<close>, the constructor raises nothing: it opens a handler on
  the file, attaches it, goes on to the datastore and the listener and returns the
  server.
\<close>

theorem DQMServer_init_with_namespace:
  "DQMServer_init (example_server_args example_namespace) example_srv_world =
     (Inr \<lparr>self_port = 8888, file_handlers = 1\<rparr>,
      example_srv_world\<lparr>srv_trace :=
        [SetLevel, NewFileHandler ''server.log'', SetLevel, SetFormatter, AddHandler,
         LogInfoObj (''Logfile set to %s'' @ [CHR 0x0A]) example_namespace,
         DbSocketFactory ''127.0.0.1'' 27017 ''molssidb'' None None ''mongo'',
         CurrentLoop, NewApplication, Listen 8888,
         LogInfoInt (''DQM Server successfully initialized at https://localhost:%d.'' @ [CHR 0x0A]) 8888]\<rparr>)"
  by (simp add: DQMServer_init_def attach_handler_def getattr_logfile_def new_file_handler_def
      connect_and_listen_def srv_emit_def example_server_args_def example_namespace_def
      example_srv_world_def Let_def)

text \<open>
  C10, amended. A \<open>logfile_name\<close> other than \<open>None\<close> that has no attribute \<open>logfile\<close>,
  a string (a path) in particular, makes the constructor raise AttributeError at line 36,
  when all it has done is to set the level of the logger: no handler, no datastore
  connection, no listener. With an object whose attribute \<open>logfile\<close> is a file name, and
  nothing else failing, the constructor opens a handler on that file, attaches it and
  returns the server after the connection and the listener are made. With \<open>None\<close>, and
  the datastore factory and the listener not failing, it returns the server with no
  handler made or attached.
\<close>

theorem DQMServer_init_logfile:
  "(logfile_name a \<noteq> ONone \<and> \<not> has_logfile (logfile_name a) \<longrightarrow>
      DQMServer_init a w = (Inl AttributeError, w\<lparr>srv_trace := srv_trace w @ [SetLevel]\<rparr>)) \<and>
   (logfile_name a = OStr s \<longrightarrow>
      DQMServer_init a w = (Inl AttributeError, w\<lparr>srv_trace := srv_trace w @ [SetLevel]\<rparr>)) \<and>
   (logfile_name a = OObj attrs \<and> map_of attrs ''logfile'' = Some (OStr f) \<and>
    \<not> handler_fails w \<and> \<not> db_socket_fails w \<and> \<not> listen_fails w \<longrightarrow>
      (\<exists>srv es. DQMServer_init a w = (Inr srv, w\<lparr>srv_trace := srv_trace w @ es\<rparr>) \<and>
         file_handlers srv = 1 \<and> take 5 es = [SetLevel, NewFileHandler f, SetLevel, SetFormatter, AddHandler] \<and>
         list_ex is_connection es)) \<and>
   (logfile_name a = ONone \<and> \<not> db_socket_fails w \<and> \<not> listen_fails w \<longrightarrow>
      (\<exists>srv es. DQMServer_init a w = (Inr srv, w\<lparr>srv_trace := srv_trace w @ es\<rparr>) \<and>
         file_handlers srv = 0 \<and> AddHandler \<notin> set es \<and> (\<forall>f. NewFileHandler f \<notin> set es) \<and>
         list_ex is_connection es))"
  by (auto simp: DQMServer_init_def attach_handler_def getattr_logfile_def new_file_handler_def
        has_logfile_def connect_and_listen_def srv_emit_def Let_def is_connection_def
        split: pyobj.splits option.splits)

theorem DQMServer_init_logfile_witness:
  "DQMServer_init (example_server_args (OStr ''server.log'')) example_srv_world =
     (Inl AttributeError, example_srv_world\<lparr>srv_trace := [SetLevel]\<rparr>) \<and>
   DQMServer_init (example_server_args (OInt 3)) example_srv_world =
     (Inl AttributeError, example_srv_world\<lparr>srv_trace := [SetLevel]\<rparr>) \<and>
   (\<exists>srv es. DQMServer_init (example_server_args example_namespace) example_srv_world =
        (Inr srv, example_srv_world\<lparr>srv_trace := es\<rparr>) \<and>
      file_handlers srv = 1 \<and> AddHandler \<in> set es) \<and>
   (\<exists>srv es. DQMServer_init (example_server_args ONone) example_srv_world =
        (Inr srv, example_srv_world\<lparr>srv_trace := es\<rparr>) \<and>
      file_handlers srv = 0 \<and> AddHandler \<notin> set es \<and> list_ex is_connection es)"
proof -
  note t = DQMServer_init_logfile[where w = example_srv_world and s = "''server.log''"
      and f = "''server.log''" and attrs = "[(''port'', OInt 8888), (''logfile'', OStr ''server.log'')]"]
  have 1: "DQMServer_init (example_server_args (OStr ''server.log'')) example_srv_world =
     (Inl AttributeError, example_srv_world\<lparr>srv_trace := [SetLevel]\<rparr>)"
    using t[of "example_server_args (OStr ''server.log'')"]
    by (simp add: example_server_args_def example_srv_world_def)
  have 2: "DQMServer_init (example_server_args (OInt 3)) example_srv_world =
     (Inl AttributeError, example_srv_world\<lparr>srv_trace := [SetLevel]\<rparr>)"
    using t[of "example_server_args (OInt 3)"]
    by (simp add: example_server_args_def example_srv_world_def has_logfile_def)
  have "\<exists>srv es. DQMServer_init (example_server_args example_namespace) example_srv_world =
        (Inr srv, example_srv_world\<lparr>srv_trace := srv_trace example_srv_world @ es\<rparr>) \<and>
      file_handlers srv = 1 \<and>
      take 5 es = [SetLevel, NewFileHandler ''server.log'', SetLevel, SetFormatter, AddHandler] \<and>
      list_ex is_connection es"
    using t[of "example_server_args example_namespace"]
    by (simp add: example_server_args_def example_srv_world_def example_namespace_def)
  then obtain srv es where n: "DQMServer_init (example_server_args example_namespace) example_srv_world =
        (Inr srv, example_srv_world\<lparr>srv_trace := srv_trace example_srv_world @ es\<rparr>)"
      "file_handlers srv = 1"
      "take 5 es = [SetLevel, NewFileHandler ''server.log'', SetLevel, SetFormatter, AddHandler]"
    by blast
  have "AddHandler \<in> set (take 5 es)" unfolding n(3) by simp
  then have "AddHandler \<in> set es" by (rule in_set_takeD)
  with n have 3: "\<exists>srv es. DQMServer_init (example_server_args example_namespace) example_srv_world =
        (Inr srv, example_srv_world\<lparr>srv_trace := es\<rparr>) \<and> file_handlers srv = 1 \<and> AddHandler \<in> set es"
    by (auto simp: example_srv_world_def)
  have 4: "\<exists>srv es. DQMServer_init (example_server_args ONone) example_srv_world =
        (Inr srv, example_srv_world\<lparr>srv_trace := es\<rparr>) \<and>
      file_handlers srv = 0 \<and> AddHandler \<notin> set es \<and> list_ex is_connection es"
    using t[of "example_server_args ONone"]
    by (simp add: example_server_args_def example_srv_world_def) blast
  from 1 2 3 4 show ?thesis by blast
qed

end
